(* ===== verification/VPD_Prelude.thy ===== *)
theory VPD_Prelude
  imports Main "HOL-Library.Sublist"
begin

text \<open>
  Shared vocabulary of the development: the lemma collections the component theories
  fill and use, the names of the model's basic types, and the facts on lists, prefixes
  and contiguous sublists that more than one component needs.

  Python's \<^verbatim>\<open>str\<close> is modelled as \<^typ>\<open>string\<close>, one \<^typ>\<open>char\<close> per code point in the
  range U+0000 to U+00FF; \<^verbatim>\<open>sub in s\<close> on strings is \<^const>\<open>sublist\<close> of
  \<open>HOL-Library.Sublist\<close>, \<^verbatim>\<open>s.startswith(p)\<close> is \<^const>\<open>prefix\<close> and
  \<^verbatim>\<open>s.endswith(p)\<close> is \<^const>\<open>suffix\<close>.
\<close>

section \<open>Lemma collections\<close>

named_theorems stmt_defs "defining equations of the statements of a modelled function body"
named_theorems py_eval "equations that evaluate the Python primitives on literals"
named_theorems frame "fields of a state that an operation leaves unchanged"

section \<open>Types\<close>

type_synonym transcript = "string list"

abbreviation newline :: char where
  "newline \<equiv> CHR 0x0A"

abbreviation nl_free :: "string \<Rightarrow> bool" where
  "nl_free s \<equiv> newline \<notin> set s"

declare sublist_code(3) [py_eval]

section \<open>Prefixes and sublists\<close>

lemma prefix_drop_id: "prefix p s \<Longrightarrow> p @ drop (length p) s = s"
  by (auto simp: prefix_def)

lemma sublist_single [simp]: "sublist [c] s \<longleftrightarrow> c \<in> set s"
  by (induction s) (auto simp: sublist_Cons_right)

lemma sublist_trans: "sublist a b \<Longrightarrow> sublist b c \<Longrightarrow> sublist a c"
  by (rule sublist_order.order.trans)

section \<open>Lists of chunks\<close>

lemma set_drop_Cons_subset: "set (drop n (x # xs)) \<subseteq> insert x (set xs)"
  using set_drop_subset [of n "x # xs"] by simp

lemma sublist_append_left: "sublist xs ys \<Longrightarrow> sublist xs (zs @ ys)"
  by (auto simp: sublist_append)

end
