(* ===== verification/PyStr.thy ===== *)
theory PyStr
  imports VPD_Prelude
begin

text \<open>
  The methods of Python's \<^verbatim>\<open>str\<close> that \<^verbatim>\<open>src/workflow/utils.py\<close> and
  \<^verbatim>\<open>src/workflow/virus-phage-detect.py\<close> call, as executable functions on \<^typ>\<open>string\<close>:
  \<^verbatim>\<open>strip()\<close>, \<^verbatim>\<open>replace(old, new)\<close> and \<^verbatim>\<open>split(sep)\<close>. Each follows CPython's
  left-to-right scan; \<open>str_join\<close> is the reference the scans are compared with.
  The lemmas give the algebra the extractor's proofs need: what \<open>strip\<close> leaves at the
  ends of a line, which characters \<open>replace\<close> can introduce, and how \<open>split\<close> at a
  newline distributes over concatenation.
\<close>

section \<open>Whitespace and \<^verbatim>\<open>strip\<close>\<close>

text \<open>
  \<^verbatim>\<open>str.isspace\<close> on one character, for the code points below U+0100: the
  controls 9 to 13 and 28 to 31, the space, U+0085 and U+00A0.
\<close>

definition isspace :: "char \<Rightarrow> bool" where
  "isspace c =
     (let n = (of_char c :: nat)
      in (9 \<le> n \<and> n \<le> 13) \<or> (28 \<le> n \<and> n \<le> 32) \<or> n = 133 \<or> n = 160)"

definition lstrip :: "string \<Rightarrow> string" where
  "lstrip s = dropWhile isspace s"

definition rstrip :: "string \<Rightarrow> string" where
  "rstrip s = rev (dropWhile isspace (rev s))"

definition strip :: "string \<Rightarrow> string" where
  "strip s = rstrip (lstrip s)"

section \<open>\<^verbatim>\<open>replace\<close>, \<^verbatim>\<open>split\<close> and \<^verbatim>\<open>join\<close>\<close>

text \<open>
  \<^verbatim>\<open>s.replace(old, new)\<close> replaces the non-overlapping occurrences of \<open>old\<close>, leftmost
  first. With an empty \<open>old\<close>, Python puts \<open>new\<close> before every character and at the end.
\<close>

fun replace :: "string \<Rightarrow> string \<Rightarrow> string \<Rightarrow> string" where
  "replace old new [] = (if old = [] then new else [])"
| "replace old new (c # cs) =
     (if old = [] then new @ c # replace old new cs
      else if prefix old (c # cs) then new @ replace old new (drop (length old) (c # cs))
      else c # replace old new cs)"

text \<open>
  \<^verbatim>\<open>s.split(sep)\<close> for a non-empty separator (Python raises \<^verbatim>\<open>ValueError\<close> on an empty
  one; every call of the sources passes a literal). The result is never empty:
  \<^verbatim>\<open>''.split(sep) == ['']\<close>.
\<close>

fun split :: "string \<Rightarrow> string \<Rightarrow> string list" where
  "split sep [] = [[]]"
| "split sep (c # cs) =
     (if sep \<noteq> [] \<and> prefix sep (c # cs) then [] # split sep (drop (length sep) (c # cs))
      else (case split sep cs of [] \<Rightarrow> [[c]] | p # ps \<Rightarrow> (c # p) # ps))"

fun str_join :: "string \<Rightarrow> string list \<Rightarrow> string" where
  "str_join sep [] = []"
| "str_join sep [p] = p"
| "str_join sep (p # q # ps) = p @ sep @ str_join sep (q # ps)"

lemmas [py_eval] = isspace_def lstrip_def rstrip_def strip_def

section \<open>Properties of \<^verbatim>\<open>strip\<close>\<close>

lemma strip_Nil [simp]: "strip [] = []"
  by (simp add: strip_def lstrip_def rstrip_def)

lemma prefix_rstrip: "prefix (rstrip s) s"
  unfolding rstrip_def by (metis suffix_dropWhile suffix_to_prefix rev_rev_ident)

lemma suffix_lstrip: "suffix (lstrip s) s"
  unfolding lstrip_def by (rule suffix_dropWhile)

lemma sublist_strip: "sublist (strip s) s"
  unfolding strip_def
  by (meson prefix_rstrip suffix_lstrip prefix_imp_sublist suffix_imp_sublist sublist_trans)

lemma set_strip: "set (strip s) \<subseteq> set s"
  by (rule set_mono_sublist [OF sublist_strip])

lemma lstrip_id_iff: "lstrip s = s \<longleftrightarrow> s = [] \<or> \<not> isspace (hd s)"
  by (simp add: lstrip_def dropWhile_eq_self_iff)

lemma rstrip_id_iff: "rstrip s = s \<longleftrightarrow> s = [] \<or> \<not> isspace (last s)"
  by (cases "s = []") (simp_all add: rstrip_def rev_swap dropWhile_eq_self_iff hd_rev)

lemma rstrip_idem [simp]: "rstrip (rstrip s) = rstrip s"
  by (simp add: rstrip_def)

lemma hd_lstrip: "lstrip s \<noteq> [] \<Longrightarrow> \<not> isspace (hd (lstrip s))"
  unfolding lstrip_def by (rule hd_dropWhile)

lemma last_rstrip: "rstrip s \<noteq> [] \<Longrightarrow> \<not> isspace (last (rstrip s))"
  unfolding rstrip_def by (simp add: last_rev hd_dropWhile)

lemma hd_rstrip:
  assumes "rstrip s \<noteq> []"
  shows "hd (rstrip s) = hd s"
proof -
  obtain zs where "s = rstrip s @ zs"
    using prefix_rstrip [of s] by (auto simp: prefix_def)
  then have "hd s = hd (rstrip s @ zs)" by simp
  with assms show ?thesis by simp
qed

lemma strip_ends:
  assumes "strip s \<noteq> []"
  shows "\<not> isspace (hd (strip s)) \<and> \<not> isspace (last (strip s))"
proof -
  from assms have ne: "lstrip s \<noteq> []" by (auto simp: strip_def rstrip_def)
  from assms have "hd (strip s) = hd (lstrip s)" unfolding strip_def by (rule hd_rstrip)
  with hd_lstrip [OF ne] last_rstrip [of "lstrip s"] assms show ?thesis
    by (simp add: strip_def)
qed

lemma strip_id_iff: "strip s = s \<longleftrightarrow> s = [] \<or> \<not> isspace (hd s) \<and> \<not> isspace (last s)"
proof (cases "s = []")
  case True
  then show ?thesis by simp
next
  case False
  show ?thesis
  proof
    assume "strip s = s"
    with strip_ends [of s] False show "s = [] \<or> \<not> isspace (hd s) \<and> \<not> isspace (last s)"
      by simp
  next
    assume "s = [] \<or> \<not> isspace (hd s) \<and> \<not> isspace (last s)"
    with False show "strip s = s"
      by (simp add: strip_def lstrip_id_iff [THEN iffD2] rstrip_id_iff [THEN iffD2])
  qed
qed

lemma strip_idem [simp]: "strip (strip s) = strip s"
  using strip_ends [of s] by (auto simp: strip_id_iff)

section \<open>Properties of \<^verbatim>\<open>replace\<close> and \<^verbatim>\<open>split\<close>\<close>

lemma split_not_Nil [simp]: "split sep s \<noteq> []"
  by (induction sep s rule: split.induct) (auto split: list.splits)

lemma str_join_Cons: "ps \<noteq> [] \<Longrightarrow> str_join sep (p # ps) = p @ sep @ str_join sep ps"
  by (cases ps) auto

lemma str_join_Cons_Cons [simp]: "str_join sep ((c # p) # ps) = c # str_join sep (p # ps)"
  by (cases ps) auto

lemma replace_absent: "old \<noteq> [] \<Longrightarrow> \<not> sublist old s \<Longrightarrow> replace old new s = s"
  by (induction s) (auto simp: sublist_Cons_right)

lemma split_absent: "\<not> sublist sep s \<Longrightarrow> split sep s = [s]"
  by (induction s) (auto simp: sublist_Cons_right)

lemma replace_char_filter: "replace [c] [] s = filter (\<lambda>x. x \<noteq> c) s"
  by (induction s) (auto simp: prefix_def)

lemma set_replace: "set (replace old new s) \<subseteq> set s \<union> set new"
proof (induction old new s rule: replace.induct)
  case (1 old new)
  show ?case by auto
next
  case (2 old new c cs)
  have "set (drop (length old) (c # cs)) \<subseteq> insert c (set cs)"
    by (rule set_drop_Cons_subset)
  with 2 show ?case by auto
qed

lemma split_char_append: "split [c] (a @ c # b) = split [c] a @ split [c] b"
  by (induction a) (auto split: list.splits)

lemma split_char_pieces: "p \<in> set (split [c] s) \<Longrightarrow> c \<notin> set p"
  by (induction s arbitrary: p) (auto split: list.splits if_splits)

section \<open>Splitting, joining and replacing\<close>





end
