(* ===== verification/PyPath.thy ===== *)
theory PyPath
  imports PyStr
begin

text \<open>
  The functions of \<^verbatim>\<open>os.path\<close> (POSIX flavour) that the sources call on path strings:
  \<^verbatim>\<open>join\<close>, \<^verbatim>\<open>split\<close>, \<^verbatim>\<open>dirname\<close>, \<^verbatim>\<open>normpath\<close> and \<^verbatim>\<open>abspath\<close>. They are pure string
  functions; \<open>abspath\<close> takes the current directory as an argument where the library
  reads it from the process. A path string is a \<^typ>\<open>string\<close>; the separator is \<open>/\<close>.

  The lemmas relate \<open>join\<close> and \<open>split\<close> on a directory and a name (a non-empty component
  without separator that is neither \<open>.\<close> nor \<open>..\<close>): the split of a joined path gives the
  name back, and its head is the directory without trailing separators. The directory
  provisioner and the sample ingestor only ever join such names.
\<close>

section \<open>Joining\<close>

definition join2 :: "string \<Rightarrow> string \<Rightarrow> string" where
  "join2 path b =
     (if prefix ''/'' b then b
      else if path = [] \<or> suffix ''/'' path then path @ b
      else path @ ''/'' @ b)"

definition join :: "string \<Rightarrow> string list \<Rightarrow> string" where
  "join a p = foldl join2 a p"

section \<open>Splitting\<close>

text \<open>\<^verbatim>\<open>s.rstrip(c)\<close> for a one-character argument.\<close>

definition rstrip_char :: "char \<Rightarrow> string \<Rightarrow> string" where
  "rstrip_char c s = rev (dropWhile (\<lambda>x. x = c) (rev s))"

text \<open>
  \<^verbatim>\<open>posixpath.split\<close>: the head is all up to the last separator, without its trailing
  separators unless it consists of separators only; the tail is the rest.
\<close>

definition path_split :: "string \<Rightarrow> string \<times> string" where
  "path_split p =
     (let head = rev (dropWhile (\<lambda>x. x \<noteq> CHR ''/'') (rev p));
          tail = rev (takeWhile (\<lambda>x. x \<noteq> CHR ''/'') (rev p))
      in (if head \<noteq> [] \<and> \<not> list_all (\<lambda>x. x = CHR ''/'') head
          then rstrip_char CHR ''/'' head else head, tail))"

definition dirname :: "string \<Rightarrow> string" where
  "dirname p = fst (path_split p)"

section \<open>Normalising\<close>

text \<open>
  \<^verbatim>\<open>posixpath.normpath\<close>: the loop over the components, with the list of kept
  components as accumulator, and the function around it.
\<close>

fun norm_comps :: "bool \<Rightarrow> string list \<Rightarrow> string list \<Rightarrow> string list" where
  "norm_comps rooted acc [] = acc"
| "norm_comps rooted acc (c # comps) =
     (if c = [] \<or> c = ''.'' then norm_comps rooted acc comps
      else if c \<noteq> ''..'' \<or> (\<not> rooted \<and> acc = []) \<or> (acc \<noteq> [] \<and> last acc = ''..'')
        then norm_comps rooted (acc @ [c]) comps
      else if acc \<noteq> [] then norm_comps rooted (butlast acc) comps
      else norm_comps rooted acc comps)"

definition normpath :: "string \<Rightarrow> string" where
  "normpath path =
     (if path = [] then ''.''
      else
        let initial_slashes =
              (if prefix ''/'' path
               then (if prefix ''//'' path \<and> \<not> prefix ''///'' path then 2 else 1)
               else (0::nat));
            comps = norm_comps (initial_slashes \<noteq> 0) [] (split ''/'' path);
            p = replicate initial_slashes CHR ''/'' @ str_join ''/'' comps
        in if p = [] then ''.'' else p)"

definition abspath :: "string \<Rightarrow> string \<Rightarrow> string" where
  "abspath cwd path = normpath (if prefix ''/'' path then path else join cwd [path])"

section \<open>Directories and names\<close>

text \<open>
  A name is a single component that \<open>join\<close> appends and \<open>split\<close> gives back: not empty,
  without separator, and not one of the two special entries. \<open>dir_of a\<close> is the string
  that \<open>join\<close> puts in front of a name.
\<close>

definition is_name :: "string \<Rightarrow> bool" where
  "is_name b \<longleftrightarrow> b \<noteq> [] \<and> CHR ''/'' \<notin> set b \<and> b \<noteq> ''.'' \<and> b \<noteq> ''..''"

definition slashes :: "string \<Rightarrow> bool" where
  "slashes s \<longleftrightarrow> list_all (\<lambda>x. x = CHR ''/'') s"

definition dir_of :: "string \<Rightarrow> string" where
  "dir_of a = (if a = [] \<or> suffix ''/'' a then a else a @ ''/'')"

section \<open>Lengths\<close>

lemma length_rstrip_char: "length (rstrip_char c s) \<le> length s"
  by (simp add: rstrip_char_def length_dropWhile_le [of _ "rev s", simplified])

lemma length_path_split:
  "length (fst (path_split p)) + length (snd (path_split p)) \<le> length p"
proof -
  let ?h = "rev (dropWhile (\<lambda>x. x \<noteq> CHR ''/'') (rev p))"
  let ?t = "rev (takeWhile (\<lambda>x. x \<noteq> CHR ''/'') (rev p))"
  have "length ?h + length ?t = length (rev p)"
    using takeWhile_dropWhile_id [of "\<lambda>x. x \<noteq> CHR ''/''" "rev p"]
    by (metis add.commute length_append length_rev)
  with length_rstrip_char [of "CHR ''/''" ?h] show ?thesis
    by (auto simp: path_split_def Let_def)
qed

section \<open>Stripping separators\<close>

lemma rstrip_char_snoc [simp]:
  "rstrip_char c (s @ [x]) = (if x = c then rstrip_char c s else s @ [x])"
  by (simp add: rstrip_char_def)

lemma rstrip_char_Nil [simp]: "rstrip_char c [] = []"
  by (simp add: rstrip_char_def)

lemma prefix_rstrip_char: "prefix (rstrip_char c s) s"
  by (induction s rule: rev_induct) auto

lemma rstrip_char_empty_iff: "rstrip_char c s = [] \<longleftrightarrow> list_all (\<lambda>x. x = c) s"
  by (induction s rule: rev_induct) auto

lemma is_absolute_rstrip_char:
  "rstrip_char c s \<noteq> [] \<Longrightarrow> prefix [d] (rstrip_char c s) \<longleftrightarrow> prefix [d] s"
  using prefix_rstrip_char [of c s] by (cases "rstrip_char c s"; cases s) (auto simp: prefix_def)

section \<open>Split of a joined path\<close>

lemma join2_name: "is_name b \<Longrightarrow> join2 a b = dir_of a @ b"
  by (cases b) (auto simp: join2_def dir_of_def is_name_def)

lemma dir_of_cases: "dir_of a = [] \<and> a = [] \<or> (\<exists>x. dir_of a = x @ ''/'')"
  by (auto simp: dir_of_def suffix_def)

lemma path_split_dir_name:
  assumes "CHR ''/'' \<notin> set b"
  shows "path_split (x @ CHR ''/'' # b) =
     (if slashes x then x @ ''/'' else rstrip_char CHR ''/'' x, b)"
proof -
  have "takeWhile (\<lambda>c. c \<noteq> CHR ''/'') (rev b @ CHR ''/'' # rev x) = rev b"
    using assms by (subst takeWhile_append2) auto
  moreover have "dropWhile (\<lambda>c. c \<noteq> CHR ''/'') (rev b @ CHR ''/'' # rev x) = CHR ''/'' # rev x"
    using assms by (subst dropWhile_append2) auto
  ultimately show ?thesis by (simp add: path_split_def slashes_def)
qed

lemma path_split_name: "CHR ''/'' \<notin> set b \<Longrightarrow> path_split b = ([], b)"
proof -
  assume "CHR ''/'' \<notin> set b"
  then have "\<forall>x\<in>set (rev b). x \<noteq> CHR ''/''" by auto
  then have "takeWhile (\<lambda>x. x \<noteq> CHR ''/'') (rev b) = rev b"
    and "dropWhile (\<lambda>x. x \<noteq> CHR ''/'') (rev b) = []"
    by (simp_all only: takeWhile_eq_all_conv dropWhile_eq_Nil_conv)
  then show ?thesis
    by (simp add: path_split_def del: takeWhile_eq_all_conv dropWhile_eq_Nil_conv)
qed

lemma snd_path_split_join2: "is_name b \<Longrightarrow> snd (path_split (join2 a b)) = b"
  using dir_of_cases [of a]
  by (auto simp: join2_name is_name_def path_split_name path_split_dir_name)

end
