(* ===== verification/FileSys.thy ===== *)
theory FileSys
  imports PyPath
begin

text \<open>
  The file system the launcher works on, and the calls of \<^verbatim>\<open>os\<close>, \<^verbatim>\<open>os.path\<close> and
  \<^verbatim>\<open>shutil\<close> that change or query it: \<^verbatim>\<open>exists\<close>, \<^verbatim>\<open>mkdir\<close>, \<^verbatim>\<open>makedirs\<close>, \<^verbatim>\<open>symlink\<close>,
  \<^verbatim>\<open>getcwd\<close>, \<^verbatim>\<open>rmtree\<close>, and \<^verbatim>\<open>open\<close> for reading and for writing a whole file.

  The state is a record of the tree (a finite map from absolute locations, lists of
  component names from the root, to nodes: a directory, a regular file with its
  content, or a symbolic link with its target string) and the current directory. A call
  is a function from the state to a result and the state after it (\<open>'a io\<close>); the result
  is \<open>Inl\<close> of the exception raised or \<open>Inr\<close> of the value returned, so that every raise
  of the source is a branch of the model and the state at the raise is kept.

  Path resolution (\<open>walk\<close>) follows symbolic links, at most \<open>max_links\<close> of them on one
  resolution, as the kernel does (\<^verbatim>\<open>ELOOP\<close> after 40 links): the fuel is the kernel's own
  bound, not a device of the model. Permissions, hard links and the trailing-separator
  rule (\<^verbatim>\<open>file/\<close> is an error for a regular file) are not modelled.

  The lemmas show that the calls that create only ever add nodes (\<open>grows\<close>, \<open>adds_dirs\<close>),
  that what exists keeps existing when the tree grows, that a successful \<open>mkdir\<close> or
  \<open>makedirs\<close> leaves a directory at the path, that the calls keep the tree well formed
  (\<open>wf_fs\<close>), and that a file written is the file read.
\<close>

section \<open>Nodes, errors and the state\<close>

type_synonym path = "string list"

datatype node = Dir | File string | Symlink string

datatype error =
    FileExistsError string
  | FileNotFoundError string
  | NotADirectoryError string
  | IsADirectoryError string
  | OSError string
  | IndexError
  | TypeError
  | AttributeError
  | NameError string
  | SystemExit int

record fs =
  nodes :: "path \<rightharpoonup> node"
  cwd :: path

section \<open>Path resolution\<close>

definition max_links :: nat where
  "max_links = 40"

definition comps :: "string \<Rightarrow> string list" where
  "comps s = filter (\<lambda>c. c \<noteq> [] \<and> c \<noteq> ''.'') (split ''/'' s)"

datatype errno = ENOENT | ENOTDIR | ELOOP

definition base :: "path \<Rightarrow> string \<Rightarrow> path" where
  "base cur s = (if prefix ''/'' s then [] else cur)"

fun walk :: "nat \<Rightarrow> (path \<rightharpoonup> node) \<Rightarrow> bool \<Rightarrow> path \<Rightarrow> string list \<Rightarrow> errno + path" where
  "walk n ns follow cur [] = Inr cur"
| "walk n ns follow cur (c # cs) =
     (if c = ''..'' then walk n ns follow (butlast cur) cs
      else
        (case ns (cur @ [c]) of
           None \<Rightarrow> if cs = [] then Inr (cur @ [c]) else Inl ENOENT
         | Some Dir \<Rightarrow> walk n ns follow (cur @ [c]) cs
         | Some (File x) \<Rightarrow> if cs = [] then Inr (cur @ [c]) else Inl ENOTDIR
         | Some (Symlink t) \<Rightarrow>
             if cs = [] \<and> \<not> follow then Inr (cur @ [c])
             else (case n of
                     0 \<Rightarrow> Inl ELOOP
                   | Suc k \<Rightarrow> walk k ns follow (base cur t) (comps t @ cs))))"

definition resolve :: "fs \<Rightarrow> bool \<Rightarrow> string \<Rightarrow> errno + path" where
  "resolve f follow s =
     (if s = [] then Inl ENOENT
      else walk max_links (nodes f) follow (base (cwd f) s) (comps s))"

section \<open>Calls that may raise\<close>

text \<open>
  A program over a state \<open>'s\<close> that returns an \<open>'a\<close> or raises; \<open>io\<close> is a program over the
  file system. \<open>io_seq\<close> is the sequence of two statements, \<open>for_each\<close> the \<^verbatim>\<open>for\<close> loop
  over a list: an exception ends either at once, with the state reached.
\<close>

type_synonym ('s, 'a) prog = "'s \<Rightarrow> (error + 'a) \<times> 's"

type_synonym 'a io = "(fs, 'a) prog"

definition io_return :: "'a \<Rightarrow> ('s, 'a) prog" where
  "io_return x f = (Inr x, f)"

definition io_raise :: "error \<Rightarrow> ('s, 'a) prog" where
  "io_raise e f = (Inl e, f)"

definition io_bind :: "('s, 'a) prog \<Rightarrow> ('a \<Rightarrow> ('s, 'b) prog) \<Rightarrow> ('s, 'b) prog" where
  "io_bind m k f = (case m f of (Inl e, f') \<Rightarrow> (Inl e, f') | (Inr x, f') \<Rightarrow> k x f')"

definition io_seq :: "('s, unit) prog \<Rightarrow> ('s, 'b) prog \<Rightarrow> ('s, 'b) prog" where
  "io_seq m k = io_bind m (\<lambda>_. k)"

fun for_each :: "('a \<Rightarrow> ('s, unit) prog) \<Rightarrow> 'a list \<Rightarrow> ('s, unit) prog" where
  "for_each body [] = io_return ()"
| "for_each body (x # xs) = io_seq (body x) (for_each body xs)"

section \<open>The calls of the library\<close>

definition os_error :: "errno \<Rightarrow> string \<Rightarrow> error" where
  "os_error e s = (case e of ENOENT \<Rightarrow> FileNotFoundError s | ENOTDIR \<Rightarrow> NotADirectoryError s
                   | ELOOP \<Rightarrow> OSError s)"

definition stat :: "fs \<Rightarrow> string \<Rightarrow> error + node" where
  "stat f s =
     (case resolve f True s of
        Inl e \<Rightarrow> Inl (os_error e s)
      | Inr p \<Rightarrow> (case nodes f p of None \<Rightarrow> Inl (FileNotFoundError s) | Some n \<Rightarrow> Inr n))"

definition exists :: "fs \<Rightarrow> string \<Rightarrow> bool" where
  "exists f s = (case stat f s of Inl e \<Rightarrow> False | Inr n \<Rightarrow> True)"

definition isdir :: "fs \<Rightarrow> string \<Rightarrow> bool" where
  "isdir f s = (stat f s = Inr Dir)"

definition create :: "node \<Rightarrow> string \<Rightarrow> unit io" where
  "create n s f =
     (case resolve f False s of
        Inl e \<Rightarrow> (Inl (os_error e s), f)
      | Inr p \<Rightarrow>
          (case nodes f p of
             Some x \<Rightarrow> (Inl (FileExistsError s), f)
           | None \<Rightarrow> (Inr (), f\<lparr>nodes := (nodes f)(p \<mapsto> n)\<rparr>)))"

definition mkdir :: "string \<Rightarrow> unit io" where
  "mkdir s = create Dir s"

definition symlink :: "string \<Rightarrow> string \<Rightarrow> unit io" where
  "symlink src dst = create (Symlink src) dst"

text \<open>\<^verbatim>\<open>os.getcwd()\<close>: the current directory as an absolute path string.\<close>

definition getcwd :: "string io" where
  "getcwd f = (Inr (CHR ''/'' # str_join ''/'' (cwd f)), f)"

text \<open>
  \<^verbatim>\<open>open(path).read()\<close> and \<^verbatim>\<open>open(path, 'w')\<close> followed by writes and the close: the
  content of a regular file read whole, and a regular file made or replaced with the
  text written. Both follow symbolic links, so writing through a dangling link makes
  the file the link names.
\<close>

definition read_file :: "string \<Rightarrow> string io" where
  "read_file s f =
     (case stat f s of
        Inl e \<Rightarrow> (Inl e, f)
      | Inr (File x) \<Rightarrow> (Inr x, f)
      | Inr n \<Rightarrow> (Inl (IsADirectoryError s), f))"

definition write_file :: "string \<Rightarrow> string \<Rightarrow> unit io" where
  "write_file s x f =
     (case resolve f True s of
        Inl e \<Rightarrow> (Inl (os_error e s), f)
      | Inr p \<Rightarrow>
          (case nodes f p of
             Some Dir \<Rightarrow> (Inl (IsADirectoryError s), f)
           | _ \<Rightarrow> (Inr (), f\<lparr>nodes := (nodes f)(p \<mapsto> File x)\<rparr>)))"

text \<open>
  \<^verbatim>\<open>shutil.rmtree(path)\<close>: removes the directory and all below it; refuses a symbolic
  link, a regular file and a path that does not exist.
\<close>

definition rmtree :: "string \<Rightarrow> unit io" where
  "rmtree s f =
     (case resolve f False s of
        Inl e \<Rightarrow> (Inl (os_error e s), f)
      | Inr p \<Rightarrow>
          (case nodes f p of
             None \<Rightarrow> (Inl (FileNotFoundError s), f)
           | Some Dir \<Rightarrow> (Inr (), f\<lparr>nodes := (\<lambda>q. if prefix p q then None else nodes f q)\<rparr>)
           | Some (File x) \<Rightarrow> (Inl (NotADirectoryError s), f)
           | Some (Symlink t) \<Rightarrow> (Inl (OSError s), f)))"

definition msplit :: "string \<Rightarrow> string \<times> string" where
  "msplit name =
     (let (head, tail) = path_split name
      in if tail = [] then path_split head else (head, tail))"

section \<open>Growth of the tree\<close>

definition is_link :: "node option \<Rightarrow> bool" where
  "is_link x = (case x of Some (Symlink t) \<Rightarrow> True | _ \<Rightarrow> False)"

definition grows :: "fs \<Rightarrow> fs \<Rightarrow> bool" where
  "grows f f' \<longleftrightarrow> nodes f \<subseteq>\<^sub>m nodes f' \<and> cwd f' = cwd f"

definition adds_dirs :: "fs \<Rightarrow> fs \<Rightarrow> bool" where
  "adds_dirs f f' \<longleftrightarrow>
     cwd f' = cwd f \<and> (\<forall>p. nodes f' p = nodes f p \<or> nodes f p = None \<and> nodes f' p = Some Dir)"

section \<open>Well-formed trees\<close>

text \<open>
  The invariant of the file system: the root is a directory, every other node lies in a
  directory, and the current directory is one. \<open>preserves I m\<close> says that the program
  \<open>m\<close> keeps an invariant \<open>I\<close> of the state, whatever its outcome.
\<close>

definition tree :: "(path \<rightharpoonup> node) \<Rightarrow> bool" where
  "tree ns \<longleftrightarrow> ns [] = Some Dir \<and> (\<forall>p. p \<noteq> [] \<longrightarrow> ns p \<noteq> None \<longrightarrow> ns (butlast p) = Some Dir)"

definition wf_fs :: "fs \<Rightarrow> bool" where
  "wf_fs f \<longleftrightarrow> tree (nodes f) \<and> nodes f (cwd f) = Some Dir"

definition preserves :: "('s \<Rightarrow> bool) \<Rightarrow> ('s, 'a) prog \<Rightarrow> bool" where
  "preserves I m \<longleftrightarrow> (\<forall>s. I s \<longrightarrow> I (snd (m s)))"

section \<open>Termination of \<open>makedirs\<close>\<close>

lemma path_split_head_le: "length (fst (path_split p)) \<le> length p"
  using length_path_split [of p] by simp

lemma path_split_head_less:
  "snd (path_split p) \<noteq> [] \<Longrightarrow> length (fst (path_split p)) < length p"
  using length_path_split [of p] by (cases "snd (path_split p)") auto

lemma msplit_head_less: "snd (msplit name) \<noteq> [] \<Longrightarrow> length (fst (msplit name)) < length name"
  using path_split_head_le [of name] path_split_head_less [of name]
    path_split_head_less [of "fst (path_split name)"]
  by (auto simp: msplit_def Let_def split: prod.splits)

text \<open>
  \<^verbatim>\<open>os.makedirs(name)\<close> with \<^verbatim>\<open>exist_ok = False\<close>: the parents first, where the head of
  the path does not exist; an existing parent met on the way is not an error, an
  existing leaf is.
\<close>

function makedirs :: "string \<Rightarrow> unit io" where
  "makedirs name f =
     (let head = fst (msplit name); tail = snd (msplit name)
      in if head \<noteq> [] \<and> tail \<noteq> [] \<and> \<not> exists f head
         then (case makedirs head f of
                 (Inl (FileExistsError x), f') \<Rightarrow>
                    if tail = ''.'' then (Inr (), f') else mkdir name f'
               | (Inl e, f') \<Rightarrow> (Inl e, f')
               | (Inr u, f') \<Rightarrow> if tail = ''.'' then (Inr (), f') else mkdir name f')
         else mkdir name f)"
  by pat_completeness auto
termination
  by (relation "measure (\<lambda>(name, f). length name)") (auto simp: msplit_head_less)

declare makedirs.simps [simp del]

section \<open>Resolution in a larger tree\<close>

lemma is_link_simps [simp]:
  "\<not> is_link None" "\<not> is_link (Some Dir)" "\<not> is_link (Some (File x))" "is_link (Some (Symlink t))"
  by (simp_all add: is_link_def)

lemma map_le_Some: "ns \<subseteq>\<^sub>m ns' \<Longrightarrow> ns p = Some x \<Longrightarrow> ns' p = Some x"
  by (auto simp: map_le_def dom_def)

lemma walk_grow:
  "walk n ns fl cur cs = Inr p \<Longrightarrow> ns \<subseteq>\<^sub>m ns' \<Longrightarrow> ns p \<noteq> None \<Longrightarrow>
   walk n ns' fl cur cs = Inr p"
proof (induction n ns fl cur cs rule: walk.induct)
  case (1 n ns follow cur)
  then show ?case by simp
next
  case (2 n ns follow cur c cs)
  show ?case
  proof (cases "c = ''..''")
    case True
    with 2 show ?thesis by simp
  next
    case False
    show ?thesis
    proof (cases "ns (cur @ [c])")
      case None
      with False 2 show ?thesis by (auto split: if_splits)
    next
      case (Some x)
      with "2.prems"(2) have "ns' (cur @ [c]) = Some x" by (rule map_le_Some)
      with False Some 2 show ?thesis
        by (cases x) (auto split: if_splits nat.splits)
    qed
  qed
qed

lemma walk_new:
  "walk n ns False cur cs = Inr p \<Longrightarrow> ns \<subseteq>\<^sub>m ns' \<Longrightarrow> ns p = None \<Longrightarrow>
   (fl \<longrightarrow> \<not> is_link (ns' p)) \<Longrightarrow> walk n ns' fl cur cs = Inr p"
proof (induction n ns "False" cur cs rule: walk.induct)
  case (1 n ns cur)
  then show ?case by simp
next
  case (2 n ns cur c cs)
  show ?case
  proof (cases "c = ''..''")
    case True
    with 2 show ?thesis by simp
  next
    case False
    show ?thesis
    proof (cases "ns (cur @ [c])")
      case None
      with False 2 show ?thesis
        by (cases "ns' (cur @ [c])") (auto split: if_splits node.splits)
    next
      case (Some x)
      with "2.prems"(2) have "ns' (cur @ [c]) = Some x" by (rule map_le_Some)
      with False Some 2 show ?thesis
        by (cases x) (auto split: if_splits nat.splits)
    qed
  qed
qed

section \<open>The calls only add nodes\<close>

lemma grows_refl [simp]: "grows f f"
  by (simp add: grows_def)

lemma grows_trans: "grows f g \<Longrightarrow> grows g h \<Longrightarrow> grows f h"
  by (auto simp: grows_def intro: map_le_trans)

lemma adds_dirs_refl [simp]: "adds_dirs f f"
  by (simp add: adds_dirs_def)

lemma adds_dirs_trans: "adds_dirs f g \<Longrightarrow> adds_dirs g h \<Longrightarrow> adds_dirs f h"
  unfolding adds_dirs_def by (metis option.distinct(1))

lemma adds_dirs_grows: "adds_dirs f f' \<Longrightarrow> grows f f'"
  unfolding adds_dirs_def grows_def map_le_def by (metis domIff)

lemma io_simps [simp]:
  "io_return x f = (Inr x, f)" "io_raise e f = (Inl e, f)"
  by (simp_all add: io_return_def io_raise_def)

lemma io_bind_cases:
  "io_bind m k f = (r, f') \<longleftrightarrow>
     (\<exists>e. m f = (Inl e, f') \<and> r = Inl e) \<or> (\<exists>x g. m f = (Inr x, g) \<and> k x g = (r, f'))"
  by (auto simp: io_bind_def split: prod.splits sum.splits)

lemma io_seq_cases:
  "io_seq m k f = (r, f') \<longleftrightarrow>
     (\<exists>e. m f = (Inl e, f') \<and> r = Inl e) \<or> (\<exists>g. m f = (Inr (), g) \<and> k g = (r, f'))"
  by (auto simp: io_seq_def io_bind_cases)

lemma io_seq_ok: "m f = (Inr (), g) \<Longrightarrow> io_seq m k f = k g"
  by (simp add: io_seq_def io_bind_def)

lemma io_seq_err: "m f = (Inl e, g) \<Longrightarrow> io_seq m k f = (Inl e, g)"
  by (simp add: io_seq_def io_bind_def)

lemma create_cases:
  "create n s f = (r, f') \<longleftrightarrow>
     (\<exists>e. resolve f False s = Inl e \<and> r = Inl (os_error e s) \<and> f' = f) \<or>
     (\<exists>p x. resolve f False s = Inr p \<and> nodes f p = Some x \<and> r = Inl (FileExistsError s) \<and> f' = f) \<or>
     (\<exists>p. resolve f False s = Inr p \<and> nodes f p = None \<and> r = Inr () \<and>
          f' = f\<lparr>nodes := (nodes f)(p \<mapsto> n)\<rparr>)"
  by (auto simp: create_def split: sum.splits option.splits)

lemma create_grows: "create n s f = (r, f') \<Longrightarrow> grows f f'"
  by (auto simp: create_cases grows_def map_le_def)

lemma mkdir_adds_dirs: "mkdir s f = (r, f') \<Longrightarrow> adds_dirs f f'"
  by (auto simp: mkdir_def create_cases adds_dirs_def split: if_splits)

lemma resolve_grow:
  "resolve f fl s = Inr p \<Longrightarrow> nodes f p \<noteq> None \<Longrightarrow> grows f f' \<Longrightarrow> resolve f' fl s = Inr p"
  by (auto simp: resolve_def grows_def split: if_splits intro: walk_grow)

lemma stat_grow: "stat f s = Inr n \<Longrightarrow> grows f f' \<Longrightarrow> stat f' s = Inr n"
proof -
  assume st: "stat f s = Inr n" and g: "grows f f'"
  from st obtain p where p: "resolve f True s = Inr p" "nodes f p = Some n"
    by (auto simp: stat_def split: sum.splits option.splits)
  from p g have "resolve f' True s = Inr p" by (auto intro: resolve_grow)
  moreover from p g have "nodes f' p = Some n" by (auto simp: grows_def intro: map_le_Some)
  ultimately show ?thesis by (simp add: stat_def)
qed

lemma exists_grow: "exists f s \<Longrightarrow> grows f f' \<Longrightarrow> exists f' s"
  by (auto simp: exists_def split: sum.splits dest: stat_grow)

lemma isdir_grow: "isdir f s \<Longrightarrow> grows f f' \<Longrightarrow> isdir f' s"
  by (auto simp: isdir_def dest: stat_grow)

lemma isdir_exists: "isdir f s \<Longrightarrow> exists f s"
  by (simp add: isdir_def exists_def)

lemma mkdir_isdir: "mkdir s f = (Inr (), f') \<Longrightarrow> isdir f' s"
proof -
  assume "mkdir s f = (Inr (), f')"
  then obtain p where p: "resolve f False s = Inr p" "nodes f p = None"
    and f': "f' = f\<lparr>nodes := (nodes f)(p \<mapsto> Dir)\<rparr>"
    by (auto simp: mkdir_def create_cases)
  from p have "s \<noteq> []" by (auto simp: resolve_def split: if_splits)
  with p have w: "walk max_links (nodes f) False (base (cwd f) s) (comps s) = Inr p"
    by (simp add: resolve_def)
  have "walk max_links ((nodes f)(p \<mapsto> Dir)) True (base (cwd f) s) (comps s) = Inr p"
    by (rule walk_new [OF w _ p(2)]) (insert p(2), auto simp: map_le_def)
  with \<open>s \<noteq> []\<close> f' show ?thesis by (simp add: isdir_def stat_def resolve_def)
qed

lemma makedirs_adds_dirs: "makedirs name f = (r, f') \<Longrightarrow> adds_dirs f f'"
proof (induction name f arbitrary: r f' rule: makedirs.induct)
  case (1 name f)
  let ?h = "fst (msplit name)" and ?t = "snd (msplit name)"
  show ?case
  proof (cases "?h \<noteq> [] \<and> ?t \<noteq> [] \<and> \<not> exists f ?h")
    case False
    with "1.prems" have "mkdir name f = (r, f')"
      by (simp add: makedirs.simps [of name f] Let_def)
    then show ?thesis by (rule mkdir_adds_dirs)
  next
    case True
    obtain r1 g where g: "makedirs ?h f = (r1, g)" by (cases "makedirs ?h f")
    with True have fg: "adds_dirs f g" by (auto intro: "1.IH")
    from "1.prems" True g have "f' = g \<or> mkdir name g = (r, f')"
      by (auto simp: makedirs.simps [of name f] Let_def split: sum.splits error.splits if_splits)
    then have "adds_dirs g f'" by (auto intro: mkdir_adds_dirs)
    with fg show ?thesis by (rule adds_dirs_trans)
  qed
qed

lemma makedirs_isdir:
  assumes "makedirs name f = (Inr (), f')" and "snd (msplit name) \<noteq> ''.''"
  shows "isdir f' name"
proof -
  from assms obtain g where "mkdir name g = (Inr (), f')"
    by (auto simp: makedirs.simps [of name f] Let_def split: sum.splits error.splits if_splits prod.splits)
  then show ?thesis by (rule mkdir_isdir)
qed

lemma msplit_join2: "is_name b \<Longrightarrow> snd (msplit (join2 a b)) = b"
  using snd_path_split_join2 [of b a]
  by (auto simp: msplit_def Let_def is_name_def split: prod.splits)

section \<open>Sequencing and reading\<close>

lemma io_bind_return [simp]: "io_bind (io_return x) k = k x"
  by (simp add: fun_eq_iff io_bind_def)

lemma io_seq_return [simp]: "io_seq (io_return ()) k = k"
  by (simp add: io_seq_def)

lemma io_bind_ok: "m s = (Inr x, t) \<Longrightarrow> io_bind m k s = k x t"
  by (simp add: io_bind_def)

lemma io_bind_err: "m s = (Inl e, t) \<Longrightarrow> io_bind m k s = (Inl e, t)"
  by (simp add: io_bind_def)

lemma getcwd_simp [simp]: "getcwd f = (Inr (CHR ''/'' # str_join ''/'' (cwd f)), f)"
  by (simp add: getcwd_def)

lemma read_file_ro: "read_file p f = (r, f') \<Longrightarrow> f' = f"
  by (auto simp: read_file_def split: sum.splits node.splits)

section \<open>Programs that keep an invariant\<close>

lemma preserves_pure [simp]: "preserves I (io_return x)" "preserves I (io_raise e)"
  by (simp_all add: preserves_def)

lemma preserves_bind:
  "preserves I m \<Longrightarrow> (\<And>x. preserves I (k x)) \<Longrightarrow> preserves I (io_bind m k)"
  by (auto simp: preserves_def io_bind_def split: prod.splits sum.splits)

lemma preserves_seq: "preserves I m \<Longrightarrow> preserves I k \<Longrightarrow> preserves I (io_seq m k)"
  by (simp add: io_seq_def preserves_bind)

lemma preserves_for_each: "(\<And>x. preserves I (body x)) \<Longrightarrow> preserves I (for_each body xs)"
  by (induction xs) (simp_all add: preserves_seq)

section \<open>The calls keep the tree well formed\<close>

lemma tree_parent: "tree ns \<Longrightarrow> ns p = Some Dir \<Longrightarrow> ns (butlast p) = Some Dir"
  by (cases "p = []") (auto simp: tree_def)

lemma tree_base: "tree ns \<Longrightarrow> ns cur = Some Dir \<Longrightarrow> ns (base cur t) = Some Dir"
  by (simp add: base_def tree_def)

lemma walk_result:
  "walk n ns fl cur cs = Inr p \<Longrightarrow> tree ns \<Longrightarrow> ns cur = Some Dir \<Longrightarrow>
   ns p = Some Dir \<or> p \<noteq> [] \<and> ns (butlast p) = Some Dir \<and> (fl \<longrightarrow> \<not> is_link (ns p))"
proof (induction n ns fl cur cs rule: walk.induct)
  case (1 n ns follow cur)
  then show ?case by simp
next
  case (2 n ns follow cur c cs)
  show ?case
  proof (cases "c = ''..''")
    case True
    with 2 show ?thesis by (simp add: tree_parent)
  next
    case False
    show ?thesis
    proof (cases "ns (cur @ [c])")
      case None
      with False 2 show ?thesis by (auto split: if_splits)
    next
      case (Some x)
      with False 2 show ?thesis
        by (cases x) (auto split: if_splits nat.splits simp: tree_base)
    qed
  qed
qed

lemma resolve_result:
  assumes "resolve f fl s = Inr p" and "wf_fs f"
  shows "nodes f p = Some Dir \<or>
     p \<noteq> [] \<and> nodes f (butlast p) = Some Dir \<and> (fl \<longrightarrow> \<not> is_link (nodes f p))"
proof -
  from assms(2) have "tree (nodes f)" "nodes f (base (cwd f) s) = Some Dir"
    by (simp_all add: wf_fs_def tree_base)
  with assms(1) show ?thesis
    by (auto simp: resolve_def split: if_splits dest!: walk_result)
qed

lemma tree_upd:
  assumes "tree ns" and "p \<noteq> []" and "ns (butlast p) = Some Dir" and "ns p \<noteq> Some Dir"
  shows "tree (ns(p \<mapsto> n))"
  unfolding tree_def
proof (intro conjI allI impI)
  from assms show "(ns(p \<mapsto> n)) [] = Some Dir" by (simp add: tree_def)
next
  fix q assume q: "q \<noteq> []" "(ns(p \<mapsto> n)) q \<noteq> None"
  show "(ns(p \<mapsto> n)) (butlast q) = Some Dir"
  proof (cases "q = p")
    case True
    with assms show ?thesis by auto
  next
    case False
    with q assms(1) have "ns (butlast q) = Some Dir" by (auto simp: tree_def)
    with assms(4) show ?thesis by auto
  qed
qed

lemma wf_fs_upd:
  assumes "wf_fs f" and "resolve f fl s = Inr p" and "nodes f p \<noteq> Some Dir"
  shows "wf_fs (f\<lparr>nodes := (nodes f)(p \<mapsto> n)\<rparr>)"
proof -
  from resolve_result [OF assms(2,1)] assms(3)
  have p: "p \<noteq> []" "nodes f (butlast p) = Some Dir" by auto
  with assms(1,3) have "tree ((nodes f)(p \<mapsto> n))" by (auto simp: wf_fs_def intro: tree_upd)
  moreover from assms(1,3) have "cwd f \<noteq> p" by (auto simp: wf_fs_def)
  ultimately show ?thesis using assms(1) by (simp add: wf_fs_def)
qed

lemma preserves_create: "preserves wf_fs (create n s)"
  unfolding preserves_def
proof (intro allI impI)
  fix f assume "wf_fs f"
  obtain r f' where c: "create n s f = (r, f')" by (cases "create n s f")
  with \<open>wf_fs f\<close> have "wf_fs f'" by (auto simp: create_cases intro: wf_fs_upd)
  with c show "wf_fs (snd (create n s f))" by simp
qed

lemma preserves_mkdir: "preserves wf_fs (mkdir s)"
  by (simp add: mkdir_def preserves_create)

lemma preserves_symlink: "preserves wf_fs (symlink t s)"
  by (simp add: symlink_def preserves_create)

lemma preserves_write_file: "preserves wf_fs (write_file s x)"
  unfolding preserves_def
proof (intro allI impI)
  fix f assume "wf_fs f"
  then show "wf_fs (snd (write_file s x f))"
    by (auto simp: write_file_def split: sum.splits option.splits node.splits intro: wf_fs_upd)
qed

lemma preserves_makedirs: "preserves wf_fs (makedirs name)"
  unfolding preserves_def
proof (intro allI impI)
  fix f :: fs assume "wf_fs f"
  then show "wf_fs (snd (makedirs name f))"
  proof (induction name f rule: makedirs.induct)
    case (1 name f)
    have mk: "wf_fs g \<Longrightarrow> wf_fs (snd (mkdir name g))" for g
      using preserves_mkdir [of name] by (simp add: preserves_def)
    show ?case
    proof (cases "fst (msplit name) \<noteq> [] \<and> snd (msplit name) \<noteq> [] \<and> \<not> exists f (fst (msplit name))")
      case False
      then have "makedirs name f = mkdir name f"
        by (auto simp: makedirs.simps [of name f] Let_def)
      with "1.prems" show ?thesis by (simp add: mk)
    next
      case True
      with 1 have "wf_fs (snd (makedirs (fst (msplit name)) f))" by simp
      with True show ?thesis
        by (auto simp: makedirs.simps [of name f] Let_def mk split: prod.splits sum.splits error.splits)
    qed
  qed
qed

section \<open>Writing and reading a file\<close>

lemma walk_set_file:
  "walk n ns True cur cs = Inr p \<Longrightarrow> ns p \<noteq> Some Dir \<Longrightarrow> \<not> is_link (ns p) \<Longrightarrow>
   walk n (ns(p \<mapsto> File x)) True cur cs = Inr p"
proof (induction n ns "True" cur cs rule: walk.induct)
  case (1 n ns cur)
  then show ?case by simp
next
  case (2 n ns cur c cs)
  show ?case
  proof (cases "c = ''..''")
    case True
    with 2 show ?thesis by simp
  next
    case False
    with 2 show ?thesis
      by (cases "ns (cur @ [c])")
        (auto split: if_splits node.splits nat.splits simp: is_link_def)
  qed
qed

lemma write_read:
  assumes "wf_fs f" and "write_file s x f = (Inr (), f')"
  shows "read_file s f' = (Inr x, f')"
proof -
  from assms(2) obtain p where p: "resolve f True s = Inr p" "nodes f p \<noteq> Some Dir"
    and f': "f' = f\<lparr>nodes := (nodes f)(p \<mapsto> File x)\<rparr>"
    by (auto simp: write_file_def split: sum.splits option.splits node.splits)
  from resolve_result [OF p(1) assms(1)] p(2) have "\<not> is_link (nodes f p)" by auto
  with p have "resolve f' True s = Inr p"
    by (auto simp: resolve_def f' split: if_splits intro: walk_set_file)
  then show ?thesis by (simp add: read_file_def stat_def f')
qed

section \<open>Links, and files that change their content\<close>

lemma resolve_new:
  assumes "resolve f False s = Inr p" and "nodes f p = None" and "grows f f'"
  shows "resolve f' False s = Inr p"
  using assms by (auto simp: resolve_def grows_def split: if_splits intro: walk_new)

lemma symlink_cases:
  "symlink t s f = (r, f') \<longleftrightarrow>
     (\<exists>e. resolve f False s = Inl e \<and> r = Inl (os_error e s) \<and> f' = f) \<or>
     (\<exists>p x. resolve f False s = Inr p \<and> nodes f p = Some x \<and> r = Inl (FileExistsError s) \<and> f' = f) \<or>
     (\<exists>p. resolve f False s = Inr p \<and> nodes f p = None \<and> r = Inr () \<and>
          f' = f\<lparr>nodes := (nodes f)(p \<mapsto> Symlink t)\<rparr>)"
  by (simp add: symlink_def create_cases)

lemma walk_file_content:
  "ns p = Some (File y) \<Longrightarrow> walk n (ns(p \<mapsto> File x)) fl cur cs = walk n ns fl cur cs"
proof (induction n ns fl cur cs rule: walk.induct)
  case (1 n ns follow cur)
  show ?case by simp
next
  case (2 n ns follow cur c cs)
  show ?case
  proof (cases "c = ''..''")
    case True
    with 2 show ?thesis by simp
  next
    case False
    with 2 show ?thesis
      by (cases "cur @ [c] = p") (auto split: option.splits node.splits nat.splits)
  qed
qed

lemma resolve_file_content:
  "nodes f p = Some (File y) \<Longrightarrow>
   resolve (f\<lparr>nodes := (nodes f)(p \<mapsto> File x)\<rparr>) fl s = resolve f fl s"
  by (simp add: resolve_def walk_file_content)

lemma read_file_File: "stat f s = Inr (File b) \<Longrightarrow> read_file s f = (Inr b, f)"
  by (simp add: read_file_def)

lemma stat_file_content:
  assumes "nodes f p = Some (File y)" and "resolve f True s = Inr q" and "q \<noteq> p"
  shows "stat (f\<lparr>nodes := (nodes f)(p \<mapsto> File x)\<rparr>) s = stat f s"
  using assms by (simp add: stat_def resolve_file_content)

lemma write_file_File:
  assumes "resolve f True s = Inr p" and "nodes f p = Some (File y)"
  shows "write_file s x f = (Inr (), f\<lparr>nodes := (nodes f)(p \<mapsto> File x)\<rparr>)"
  using assms by (simp add: write_file_def)

lemma preserves_ro: "(\<And>s. snd (m s) = s) \<Longrightarrow> preserves I m"
  by (simp add: preserves_def)

lemma preserves_if:
  "(c \<Longrightarrow> preserves I m) \<Longrightarrow> (\<not> c \<Longrightarrow> preserves I k) \<Longrightarrow> preserves I (if c then m else k)"
  by simp

end
