(* ===== verification/Process.thy ===== *)
theory Process
  imports FileSys
begin

text \<open>
  The process the launcher runs in, as far as the dispatcher can see it: the file
  system, the text printed to standard output, and the invocations of the workflow
  engine so far. The engine, the YAML loader and the CSV reader are libraries outside
  the repository; they are parameters of the model, functions of which nothing is
  assumed but their types. \<open>pyval\<close> is the part of Python's values that these libraries
  hand to the sources.
\<close>

section \<open>Values\<close>

datatype pyval =
    PNone
  | PBool bool
  | PInt int
  | PFloat
  | PStr string
  | PList "pyval list"
  | PDict "(pyval \<times> pyval) list"

text \<open>
  The result of \<^verbatim>\<open>pd.read_csv(path, header = 0, index_col = 0)\<close>: the index (the first
  column) and the rows of the other columns. The reader is a parameter, from the text of
  the file to the frame or the exception raised.
\<close>

record dataframe =
  df_index :: "pyval list"
  df_values :: "pyval list list"

type_synonym reader = "string \<Rightarrow> error + dataframe"

definition read_csv :: "reader \<Rightarrow> string \<Rightarrow> dataframe io" where
  "read_csv R path = io_bind (read_file path) (\<lambda>txt f. (R txt, f))"

section \<open>Invocations of the engine\<close>

text \<open>The keyword arguments of \<^verbatim>\<open>snakemake(...)\<close> that \<^verbatim>\<open>cmd_line\<close> passes.\<close>

record api_call =
  snakefile :: string
  config :: "(string \<times> string) list"
  configfiles :: "string list"
  cores :: int
  restart_times :: int
  use_conda :: bool
  conda_prefix :: pyval
  printshellcmds :: bool
  keepgoing :: bool
  latency_wait :: int
  dryrun :: bool
  unlock :: bool

datatype invocation = Api api_call | Argv "pyval list"

text \<open>
  An engine maps an invocation and the file system to an outcome, the text it prints to
  standard output, and the file system it leaves.
\<close>

type_synonym engine = "invocation \<Rightarrow> fs \<Rightarrow> (error + unit) \<times> string \<times> fs"

section \<open>The process\<close>

record proc =
  fsys :: fs
  out :: string
  calls :: "invocation list"

type_synonym 'a act = "(proc, 'a) prog"

definition lift :: "'a io \<Rightarrow> 'a act" where
  "lift m s = (case m (fsys s) of (r, f') \<Rightarrow> (r, s\<lparr>fsys := f'\<rparr>))"

definition invoke :: "engine \<Rightarrow> invocation \<Rightarrow> unit act" where
  "invoke E i s =
     (case E i (fsys s) of
        (r, txt, f') \<Rightarrow> (r, s\<lparr>fsys := f', out := out s @ txt, calls := calls s @ [i]\<rparr>))"

text \<open>\<^verbatim>\<open>print(x)\<close> for a string.\<close>

definition print :: "string \<Rightarrow> unit act" where
  "print x s = (Inr (), s\<lparr>out := out s @ x @ [newline]\<rparr>)"

text \<open>
  \<^verbatim>\<open>f = io.StringIO()\<close>, \<^verbatim>\<open>with redirect_stdout(f): body\<close>, \<^verbatim>\<open>f.getvalue()\<close>: what the body
  prints is returned instead of printed; standard output is restored also when the body
  raises.
\<close>

definition redirect_stdout :: "unit act \<Rightarrow> string act" where
  "redirect_stdout body s =
     (case body (s\<lparr>out := []\<rparr>) of
        (Inl e, s') \<Rightarrow> (Inl e, s'\<lparr>out := out s\<rparr>)
      | (Inr u, s') \<Rightarrow> (Inr (out s'), s'\<lparr>out := out s\<rparr>))"

text \<open>The use of a global name of a module whose bound names are \<open>G\<close>.\<close>

definition name :: "string list \<Rightarrow> string \<Rightarrow> ('s, unit) prog" where
  "name G n = (if n \<in> set G then io_return () else io_raise (NameError n))"

text \<open>\<^verbatim>\<open>xs[i]\<close> for a list and a non-negative index.\<close>

definition index :: "'a list \<Rightarrow> nat \<Rightarrow> ('s, 'a) prog" where
  "index xs i = (if i < length xs then io_return (xs ! i) else io_raise IndexError)"

text \<open>\<^verbatim>\<open>f.readlines()\<close> on the text of a file: the lines with their line ends.\<close>

fun readlines :: "string \<Rightarrow> string list" where
  "readlines [] = []"
| "readlines (c # cs) =
     (if c = newline then [c] # readlines cs
      else (case readlines cs of [] \<Rightarrow> [[c]] | l # ls \<Rightarrow> (c # l) # ls))"

text \<open>\<^verbatim>\<open>str(n)\<close> for an integer: its decimal digits, with a sign when negative.\<close>

fun digits :: "nat \<Rightarrow> string" where
  "digits n = (if n < 10 then [char_of (48 + n)] else digits (n div 10) @ [char_of (48 + n mod 10)])"

definition str_int :: "int \<Rightarrow> string" where
  "str_int i = (if i < 0 then CHR ''-'' # digits (nat (- i)) else digits (nat i))"

declare digits.simps [simp del]

section \<open>The record of invocations\<close>

text \<open>
  \<open>issues P s s'\<close>: from \<open>s\<close> to \<open>s'\<close> the engine was invoked some number of times, each
  invocation satisfying \<open>P\<close>, and nothing was taken off the record of invocations.
\<close>

definition issues :: "(invocation \<Rightarrow> bool) \<Rightarrow> proc \<Rightarrow> proc \<Rightarrow> bool" where
  "issues P s s' \<longleftrightarrow> (\<exists>js. calls s' = calls s @ js \<and> list_all P js)"

section \<open>The effect of the primitives\<close>

lemma lift_cases:
  "lift m s = (r, s') \<longleftrightarrow> (\<exists>f'. m (fsys s) = (r, f') \<and> s' = s\<lparr>fsys := f'\<rparr>)"
  by (auto simp: lift_def split: prod.splits)

lemma invoke_cases:
  "invoke E i s = (r, s') \<longleftrightarrow>
     (\<exists>txt f'. E i (fsys s) = (r, txt, f') \<and>
        s' = s\<lparr>fsys := f', out := out s @ txt, calls := calls s @ [i]\<rparr>)"
  by (auto simp: invoke_def split: prod.splits)

lemma calls_invoke: "invoke E i s = (r, s') \<Longrightarrow> calls s' = calls s @ [i]"
  by (auto simp: invoke_cases)

lemma calls_lift: "lift m s = (r, s') \<Longrightarrow> calls s' = calls s"
  by (auto simp: lift_cases)

lemma calls_redirect:
  "redirect_stdout m s = (r, s') \<Longrightarrow> \<exists>r' t. m (s\<lparr>out := []\<rparr>) = (r', t) \<and> calls s' = calls t \<and>
     (case r of Inl e \<Rightarrow> r' = Inl e | Inr x \<Rightarrow> r' = Inr () \<and> x = out t)"
  by (auto simp: redirect_stdout_def split: prod.splits sum.splits)

lemma index_cases:
  "index xs i s = (r, s') \<longleftrightarrow>
     s' = s \<and> (i < length xs \<and> r = Inr (xs ! i) \<or> \<not> i < length xs \<and> r = Inl IndexError)"
  by (auto simp: index_def)

lemma index_in [simp]: "i < length xs \<Longrightarrow> index xs i = io_return (xs ! i)"
  by (simp add: index_def)

lemma name_bound [simp]: "n \<in> set G \<Longrightarrow> name G n = io_return ()"
  by (simp add: name_def)

lemma name_unbound: "n \<notin> set G \<Longrightarrow> name G n s = (Inl (NameError n), s)"
  by (simp add: name_def)

section \<open>Programs that only issue invocations\<close>

lemma issues_refl [simp]: "issues P s s"
  by (simp add: issues_def)

lemma issues_trans: "issues P s t \<Longrightarrow> issues P t u \<Longrightarrow> issues P s u"
  by (auto simp: issues_def)

lemma issues_bind:
  assumes "\<And>s. issues P s (snd (m s))" and "\<And>x s. issues P s (snd (k x s))"
  shows "issues P s (snd (io_bind m k s))"
proof (cases "m s")
  case (Pair r t)
  with assms(1) [of s] have st: "issues P s t" by simp
  show ?thesis
  proof (cases r)
    case (Inl e)
    with Pair st show ?thesis by (simp add: io_bind_def)
  next
    case (Inr x)
    with Pair have "io_bind m k s = k x t" by (simp add: io_bind_def)
    with st assms(2) [of t x] show ?thesis by (auto intro: issues_trans)
  qed
qed

lemma issues_seq:
  "(\<And>s. issues P s (snd (m s))) \<Longrightarrow> (\<And>s. issues P s (snd (k s))) \<Longrightarrow>
   issues P s (snd (io_seq m k s))"
  unfolding io_seq_def by (rule issues_bind)

lemma issues_if:
  "(c \<Longrightarrow> issues P s (snd (m s))) \<Longrightarrow> (\<not> c \<Longrightarrow> issues P s (snd (k s))) \<Longrightarrow>
   issues P s (snd ((if c then m else k) s))"
  by simp

lemma issues_lift [simp]: "issues P s (snd (lift m s))"
  by (simp add: lift_def issues_def split: prod.splits)

lemma issues_pure [simp]:
  "issues P s (snd (io_return x s))" "issues P s (snd (io_raise e s))"
  "issues P s (snd (name G n s))" "issues P s (snd (index xs i s))"
  "issues P s (snd (print y s))"
  by (simp_all add: name_def index_def print_def issues_def)

lemma issues_invoke: "P i \<Longrightarrow> issues P s (snd (invoke E i s))"
  by (simp add: invoke_def issues_def split: prod.splits)

lemma issues_redirect:
  "(\<And>s. issues P s (snd (m s))) \<Longrightarrow> issues P s (snd (redirect_stdout m s))"
proof -
  assume b: "\<And>s. issues P s (snd (m s))"
  from b [of "s\<lparr>out := []\<rparr>"] show ?thesis
    by (auto simp: redirect_stdout_def issues_def split: prod.splits sum.splits)
qed

end
