(* ===== verification/Config.thy ===== *)
theory Config
  imports Process
begin

text \<open>
  The lookup of the conda prefix in the parameters file: \<^verbatim>\<open>get_conda_prefix\<close>
  (\<^verbatim>\<open>src/workflow/utils.py\<close>). The YAML loader is a parameter: a function from the text
  of the file to the value loaded or the exception raised. The lemmas give the result
  for each kind of value the loader can return.
\<close>

section \<open>The code\<close>

type_synonym loader = "string \<Rightarrow> error + pyval"

text \<open>\<^verbatim>\<open>config.get(key, default)\<close>: a method of dictionaries only.\<close>

definition dict_get :: "pyval \<Rightarrow> pyval \<Rightarrow> pyval \<Rightarrow> ('s, pyval) prog" where
  "dict_get d k dflt =
     (case d of
        PDict kvs \<Rightarrow> io_return (case map_of kvs k of None \<Rightarrow> dflt | Some v \<Rightarrow> v)
      | _ \<Rightarrow> io_raise AttributeError)"

definition safe_load :: "loader \<Rightarrow> string \<Rightarrow> ('s, pyval) prog" where
  "safe_load Y txt s = (Y txt, s)"

definition get_conda_prefix :: "loader \<Rightarrow> string \<Rightarrow> pyval io" where
  "get_conda_prefix Y yaml_file =
     io_bind (read_file yaml_file) (\<lambda>txt.
     io_bind (safe_load Y txt) (\<lambda>config.
     dict_get config (PStr ''conda_prefix'') (PStr ''Not Found'')))"

section \<open>The lookup reads only\<close>

lemma snd_dict_get [simp]: "snd (dict_get d k x s) = s"
  by (simp add: dict_get_def split: pyval.splits)

lemma snd_get_conda_prefix [simp]: "snd (get_conda_prefix Y p f) = f"
  by (auto simp: get_conda_prefix_def io_bind_def safe_load_def
      split: prod.splits sum.splits dest: read_file_ro)

lemma get_conda_prefix_ro: "get_conda_prefix Y p f = (r, f') \<Longrightarrow> f' = f"
  using snd_get_conda_prefix [of Y p f] by simp

section \<open>Results of the lookup\<close>

text \<open>
  C20 (lookup). Where the parameters file can be read and the loader returns a dictionary,
  the lookup returns the value under the key \<^verbatim>\<open>conda_prefix\<close>, whatever its type, and the
  string \<^verbatim>\<open>Not Found\<close> when the dictionary has no such key; the file system is not
  changed.
\<close>

theorem get_conda_prefix_dict:
  assumes "read_file p f = (Inr txt, f')" and "Y txt = Inr (PDict kvs)"
  shows "get_conda_prefix Y p f =
     (Inr (case map_of kvs (PStr ''conda_prefix'') of None \<Rightarrow> PStr ''Not Found'' | Some v \<Rightarrow> v), f)"
proof -
  from assms(1) have "read_file p f = (Inr txt, f)" by (auto dest: read_file_ro)
  with assms(2) show ?thesis
    by (simp add: get_conda_prefix_def io_bind_ok safe_load_def dict_get_def)
qed

theorem get_conda_prefix_dict_witness:
  "get_conda_prefix (\<lambda>t. Inr (PDict [(PStr ''ext'', PStr t)])) ''/p.yaml''
     \<lparr>nodes = [[] \<mapsto> Dir, [''p.yaml''] \<mapsto> File ''ext: x''], cwd = []\<rparr> =
   (Inr (PStr ''Not Found''),
     \<lparr>nodes = [[] \<mapsto> Dir, [''p.yaml''] \<mapsto> File ''ext: x''], cwd = []\<rparr>)"
proof -
  let ?f = "\<lparr>nodes = [[] \<mapsto> Dir, [''p.yaml''] \<mapsto> File ''ext: x''], cwd = []\<rparr>"
  have "fst (read_file ''/p.yaml'' ?f) = Inr ''ext: x''" by code_simp
  then have "read_file ''/p.yaml'' ?f = (Inr ''ext: x'', snd (read_file ''/p.yaml'' ?f))"
    by (simp add: prod_eq_iff)
  from get_conda_prefix_dict [OF this, of "\<lambda>t. Inr (PDict [(PStr ''ext'', PStr t)])"]
  show ?thesis by simp
qed

text \<open>
  C26 (no dictionary). Where the loader returns anything but a dictionary (for an empty file
  it returns \<^verbatim>\<open>None\<close>), the lookup raises \<^verbatim>\<open>AttributeError\<close>: the default is for a missing
  key only, not for a file without keys.
\<close>

theorem get_conda_prefix_no_dict:
  assumes "read_file p f = (Inr txt, f')" and "Y txt = Inr v" and "\<forall>kvs. v \<noteq> PDict kvs"
  shows "get_conda_prefix Y p f = (Inl AttributeError, f)"
proof -
  from assms(1) have "read_file p f = (Inr txt, f)" by (auto dest: read_file_ro)
  with assms(2,3) show ?thesis
    by (cases v) (simp_all add: get_conda_prefix_def io_bind_ok safe_load_def dict_get_def)
qed

theorem get_conda_prefix_no_dict_witness:
  "get_conda_prefix (\<lambda>t. Inr PNone) ''/p.yaml''
     \<lparr>nodes = [[] \<mapsto> Dir, [''p.yaml''] \<mapsto> File []], cwd = []\<rparr> =
   (Inl AttributeError, \<lparr>nodes = [[] \<mapsto> Dir, [''p.yaml''] \<mapsto> File []], cwd = []\<rparr>)"
proof -
  let ?f = "\<lparr>nodes = [[] \<mapsto> Dir, [''p.yaml''] \<mapsto> File []], cwd = []\<rparr>"
  have "fst (read_file ''/p.yaml'' ?f) = Inr []" by code_simp
  then have "read_file ''/p.yaml'' ?f = (Inr [], snd (read_file ''/p.yaml'' ?f))"
    by (simp add: prod_eq_iff)
  from get_conda_prefix_no_dict [OF this, of "\<lambda>t. Inr PNone" PNone]
  show ?thesis by simp
qed

end
