(* ===== verification/Provisioner.thy ===== *)
theory Provisioner
  imports FileSys
begin

text \<open>
  The directory provisioner: \<^verbatim>\<open>check_make\<close> and the constructor of \<^verbatim>\<open>Workflow_Dirs\<close>
  (\<^verbatim>\<open>src/workflow/utils.py\<close>). The object the constructor builds is the record
  \<open>workflow_dirs\<close> of its three attributes; the constructor is a call on the file system
  that returns the record.

  \<open>targets\<close> and \<open>provision\<close> are the contract: the sixteen directories of the tree in the
  order the constructor visits them, and the loop that ensures each. The constructor is
  shown to be this loop; its properties (a second call changes nothing, every directory
  of the tree exists after a successful call, nodes are only ever added and only
  directories, nothing is undone when a call fails) are derived from the properties of
  \<open>check_make\<close> and of the file-system calls.
\<close>

section \<open>The code\<close>

definition check_make :: "string \<Rightarrow> unit io" where
  "check_make d f = (if \<not> exists f d then makedirs d f else (Inr (), f))"

record workflow_dirs =
  OUT :: string
  TMP :: string
  LOG :: string

definition out_dirs :: "string list" where
  "out_dirs = [''0_metaspades'', ''1.1_viralverify'', ''1.2_vibrant'', ''1.3_virsorter'',
     ''1.4_virfinder'', ''1.5_genomad'', ''2_dereplication'', ''3_checkv'', ''final_reports'']"

definition log_dirs :: "string list" where
  "log_dirs = [''metaspades'', ''viralverify'', ''vibrant'', ''checkv'']"

text \<open>The three assignments that open the constructor.\<close>

definition dirs_of :: "string \<Rightarrow> workflow_dirs" where
  "dirs_of work_dir =
     \<lparr>OUT = join work_dir [''virus_phage_detect''],
      TMP = join work_dir [''tmp''],
      LOG = join work_dir [''logs'']\<rparr>"

text \<open>The constructor. Its second argument is never read, whatever its type.\<close>

definition Workflow_Dirs :: "string \<Rightarrow> 'm \<Rightarrow> workflow_dirs io" where
  "Workflow_Dirs work_dir module =
     (let self = dirs_of work_dir
      in io_seq (check_make (OUT self))
        (io_seq (for_each (\<lambda>d. check_make (join (OUT self) [d])) out_dirs)
        (io_seq (check_make (TMP self))
        (io_seq (check_make (LOG self))
        (io_seq (for_each (\<lambda>d. check_make (join (LOG self) [d])) log_dirs)
        (io_return self))))))"

section \<open>The contract\<close>

definition targets :: "string \<Rightarrow> string list" where
  "targets work_dir =
     (let self = dirs_of work_dir
      in OUT self # map (\<lambda>d. join (OUT self) [d]) out_dirs @
         TMP self # LOG self # map (\<lambda>d. join (LOG self) [d]) log_dirs)"

definition provision :: "string list \<Rightarrow> unit io" where
  "provision ds = for_each check_make ds"

text \<open>A path whose last component is not the entry \<open>.\<close>, which \<open>makedirs\<close> does not create.\<close>

definition leaf_ok :: "string \<Rightarrow> bool" where
  "leaf_ok d \<longleftrightarrow> snd (msplit d) \<noteq> ''.''"

text \<open>
  The states the examples start from: a root that holds the empty directory \<open>/w\<close>, and
  the same with a regular file where the tree's temporary directory belongs.
\<close>

definition fs_empty :: fs where
  "fs_empty = \<lparr>nodes = [[] \<mapsto> Dir, [''w''] \<mapsto> Dir], cwd = []\<rparr>"

definition fs_collision :: fs where
  "fs_collision =
     \<lparr>nodes = [[] \<mapsto> Dir, [''w''] \<mapsto> Dir, [''w'', ''tmp''] \<mapsto> File ''x''], cwd = []\<rparr>"

section \<open>Sequences of calls\<close>

lemma for_each_append:
  "for_each body (xs @ ys) = io_seq (for_each body xs) (for_each body ys)"
  by (induction xs)
    (auto simp: fun_eq_iff io_seq_def io_bind_def io_return_def split: prod.splits sum.splits)

lemma for_each_map: "for_each body (map g xs) = for_each (\<lambda>x. body (g x)) xs"
  by (induction xs) auto

lemma io_seq_assoc: "io_seq (io_seq a b) c = io_seq a (io_seq b c)"
  by (auto simp: fun_eq_iff io_seq_def io_bind_def split: prod.splits sum.splits)

section \<open>One directory\<close>

lemma check_make_adds_dirs: "check_make d f = (r, f') \<Longrightarrow> adds_dirs f f'"
  by (auto simp: check_make_def split: if_splits dest: makedirs_adds_dirs)

lemma check_make_exists:
  "check_make d f = (Inr (), f') \<Longrightarrow> leaf_ok d \<Longrightarrow> exists f' d"
  by (auto simp: check_make_def leaf_ok_def split: if_splits dest: makedirs_isdir isdir_exists)

lemma check_make_noop: "exists f d \<Longrightarrow> check_make d f = (Inr (), f)"
  by (simp add: check_make_def)

section \<open>A list of directories\<close>

lemma provision_adds_dirs: "provision ds f = (r, f') \<Longrightarrow> adds_dirs f f'"
proof (induction ds arbitrary: f)
  case Nil
  then show ?case by (simp add: provision_def)
next
  case (Cons d ds)
  from Cons.prems consider "check_make d f = (r, f')"
    | g where "check_make d f = (Inr (), g)" "provision ds g = (r, f')"
    by (auto simp: provision_def io_seq_cases)
  then show ?case
    by cases (auto dest: check_make_adds_dirs Cons.IH intro: adds_dirs_trans)
qed

lemma provision_exists:
  "provision ds f = (Inr (), f') \<Longrightarrow> list_all leaf_ok ds \<Longrightarrow> list_all (exists f') ds"
proof (induction ds arbitrary: f)
  case Nil
  then show ?case by simp
next
  case (Cons d ds)
  from Cons.prems(1) obtain g
    where g: "check_make d f = (Inr (), g)" "provision ds g = (Inr (), f')"
    by (auto simp: provision_def io_seq_cases)
  from g(1) Cons.prems(2) have "exists g d" by (auto dest: check_make_exists)
  moreover from g(2) have "grows g f'" by (auto dest: provision_adds_dirs adds_dirs_grows)
  ultimately have "exists f' d" by (rule exists_grow)
  with Cons.IH [OF g(2)] Cons.prems(2) show ?case by simp
qed

lemma provision_noop: "list_all (exists f) ds \<Longrightarrow> provision ds f = (Inr (), f)"
  by (induction ds) (auto simp: provision_def check_make_noop io_seq_ok)

section \<open>The tree\<close>

lemma leaf_ok_join [simp]: "is_name b \<Longrightarrow> leaf_ok (join a [b])"
  by (auto simp: leaf_ok_def join_def msplit_join2 is_name_def)

lemma is_name_dirs [simp]:
  "is_name ''virus_phage_detect''" "is_name ''tmp''" "is_name ''logs''"
  "list_all is_name out_dirs" "list_all is_name log_dirs"
  by (simp_all add: is_name_def out_dirs_def log_dirs_def)

lemma leaf_ok_targets: "list_all leaf_ok (targets work_dir)"
  using is_name_dirs(4,5) by (auto simp: targets_def dirs_of_def list_all_iff)

lemma preserves_check_make: "preserves wf_fs (check_make d)"
  using preserves_makedirs [of d] by (simp add: preserves_def check_make_def)

lemma preserves_Workflow_Dirs: "preserves wf_fs (Workflow_Dirs w m)"
  unfolding Workflow_Dirs_def Let_def
  by (intro preserves_seq preserves_for_each preserves_check_make preserves_pure)

lemma wf_fs_empty: "wf_fs fs_empty"
  by (simp add: wf_fs_def tree_def fs_empty_def)


lemma Workflow_Dirs_cases:
  "Workflow_Dirs w m f = (r, f') \<longleftrightarrow>
     (\<exists>e. provision (targets w) f = (Inl e, f') \<and> r = Inl e) \<or>
     provision (targets w) f = (Inr (), f') \<and> r = Inr (dirs_of w)"
  by (auto simp: Workflow_Dirs_def targets_def provision_def Let_def for_each_append
      for_each_map io_seq_assoc io_seq_cases)

lemma Workflow_Dirs_exists:
  assumes "Workflow_Dirs w m f = (Inr d, f')"
  shows "list_all (exists f') (targets w)"
proof -
  from assms have "provision (targets w) f = (Inr (), f')"
    by (simp add: Workflow_Dirs_cases)
  then show ?thesis using leaf_ok_targets by (rule provision_exists)
qed

lemma Workflow_Dirs_fs_empty:
  "Workflow_Dirs ''/w'' () fs_empty =
     (Inr (dirs_of ''/w''), snd (Workflow_Dirs ''/w'' () fs_empty))"
proof -
  have "fst (Workflow_Dirs ''/w'' () fs_empty) = Inr (dirs_of ''/w'')" by code_simp
  then show ?thesis by (simp add: prod_eq_iff)
qed

text \<open>
  C3 (idempotence). After a successful call of the constructor, a second call on the same
  working directory, with any second argument, succeeds with the same three roots and
  leaves the file system as the first call left it: it creates nothing.
\<close>

theorem Workflow_Dirs_idempotent:
  assumes "Workflow_Dirs w m f = (Inr d, f')"
  shows "Workflow_Dirs w m' f' = (Inr d, f')"
proof -
  from assms have "list_all (exists f') (targets w)" by (rule Workflow_Dirs_exists)
  then have "provision (targets w) f' = (Inr (), f')" by (rule provision_noop)
  moreover from assms have "d = dirs_of w" by (auto simp: Workflow_Dirs_cases)
  ultimately show ?thesis by (simp add: Workflow_Dirs_cases)
qed

theorem Workflow_Dirs_idempotent_witness:
  "Workflow_Dirs ''/w'' ''again'' (snd (Workflow_Dirs ''/w'' () fs_empty)) =
     (Inr (dirs_of ''/w''), snd (Workflow_Dirs ''/w'' () fs_empty))"
  using Workflow_Dirs_fs_empty by (rule Workflow_Dirs_idempotent)

text \<open>
  C6 (postcondition). After a successful call of the constructor every one of the sixteen
  directories of the tree exists, and the value returned holds the three roots.
\<close>

theorem Workflow_Dirs_complete:
  assumes "Workflow_Dirs w m f = (Inr d, f')"
  shows "d = dirs_of w \<and> list_all (exists f') (targets w)"
  using assms Workflow_Dirs_exists [OF assms] by (auto simp: Workflow_Dirs_cases)

theorem Workflow_Dirs_complete_witness:
  "list_all (exists (snd (Workflow_Dirs ''/w'' () fs_empty))) (targets ''/w'')"
  using Workflow_Dirs_complete [OF Workflow_Dirs_fs_empty] by simp

text \<open>
  C11 (no rollback, additions only). Whatever the outcome of the constructor, success or
  exception, the file system after it is the one before it with directories added: no
  node is removed or changed, every new node is a directory, and the current directory
  is the same. What was created before an exception stays.
\<close>

theorem Workflow_Dirs_only_adds: "adds_dirs f (snd (Workflow_Dirs w m f))"
proof -
  obtain r f' where r: "Workflow_Dirs w m f = (r, f')" by (cases "Workflow_Dirs w m f")
  then have "provision (targets w) f = (Inr (), f') \<or> (\<exists>e. provision (targets w) f = (Inl e, f'))"
    by (auto simp: Workflow_Dirs_cases)
  then have "adds_dirs f f'" by (auto dest: provision_adds_dirs)
  with r show ?thesis by simp
qed

text \<open>
  C22 (collision with a non-directory). Where every path of the tree exists, the constructor
  succeeds and changes nothing, whatever kind of node the paths lead to: a regular file
  in the place of a directory of the tree is accepted, not reported.
\<close>

theorem Workflow_Dirs_accepts_files:
  assumes "list_all (exists f) (targets w)"
  shows "Workflow_Dirs w m f = (Inr (dirs_of w), f)"
  using provision_noop [OF assms] by (simp add: Workflow_Dirs_cases)

theorem Workflow_Dirs_accepts_files_witness:
  "\<not> isdir (snd (Workflow_Dirs ''/w'' () fs_collision)) ''/w/tmp'' \<and>
   Workflow_Dirs ''/w'' () (snd (Workflow_Dirs ''/w'' () fs_collision)) =
     (Inr (dirs_of ''/w''), snd (Workflow_Dirs ''/w'' () fs_collision))"
proof -
  let ?f = "snd (Workflow_Dirs ''/w'' () fs_collision)"
  have "list_all (exists ?f) (targets ''/w'')" by code_simp
  then have "Workflow_Dirs ''/w'' () ?f = (Inr (dirs_of ''/w''), ?f)"
    by (rule Workflow_Dirs_accepts_files)
  moreover have "\<not> isdir ?f ''/w/tmp''" by code_simp
  ultimately show ?thesis by simp
qed



end
