(* ===== verification/Extractor_Spec.thy ===== *)
theory Extractor_Spec
  imports PyStr
begin

text \<open>
  The contract of the dry-run command extractor, as a two-state machine over the lines of
  the engine's transcript. The machine is the reading of \<^verbatim>\<open>print_cmds\<close>
  (\<^verbatim>\<open>src/workflow/utils.py\<close>) as a transition table keyed on line-content predicates:
  a mode (\<open>Idle\<close> or \<open>Capturing\<close>), the mode after a line (\<open>next_mode\<close>), the events a
  line emits (\<open>events\<close>), the line that ends the run (\<open>terminal\<close>) and the run over a
  transcript (\<open>machine\<close>). Theory \<open>Extractor\<close> proves that the loop of \<^verbatim>\<open>print_cmds\<close>
  implements this machine; the lemmas here are the machine's own algebra (runs over
  appended transcripts, what an idle machine can emit, the shape of the events of a
  well-formed step block), which the properties of the code are derived from.
\<close>

section \<open>Modes, events and line predicates\<close>

datatype mode = Idle | Capturing

text \<open>
  What one write to the script is: the comment of a step, the comment of a parameter
  binding, the empty line the metadata line leaves, or a command.
\<close>

datatype event = StepComment string | ParamComment string | MetaBlank | Command string

definition has_step :: "string \<Rightarrow> bool" where
  "has_step l \<longleftrightarrow> sublist ''rule'' l"

definition has_params :: "string \<Rightarrow> bool" where
  "has_params l \<longleftrightarrow> sublist ''wildcards'' l"

definition has_meta :: "string \<Rightarrow> bool" where
  "has_meta l \<longleftrightarrow> sublist ''resources'' l"

definition has_boundary :: "string \<Rightarrow> bool" where
  "has_boundary l \<longleftrightarrow> sublist ''['' l"

text \<open>
  The terminal line. A line that also holds the metadata marker does not end the run:
  the code blanks such a line before it tests for the terminal step.
\<close>

definition terminal :: "string \<Rightarrow> bool" where
  "terminal l \<longleftrightarrow> sublist ''rule make_config'' l \<and> \<not> has_meta l"

definition plain :: "string \<Rightarrow> bool" where
  "plain l \<longleftrightarrow> \<not> has_step l \<and> \<not> has_params l \<and> \<not> has_meta l \<and> \<not> has_boundary l"

definition step_name :: "string \<Rightarrow> string" where
  "step_name l = replace '':'' '''' (replace ''rule '' '''' (strip l))"

definition param_text :: "string \<Rightarrow> string" where
  "param_text l = replace ''wildcards: '' '''' (strip l)"

lemmas line_preds = has_step_def has_params_def has_meta_def has_boundary_def terminal_def

lemmas [py_eval] = line_preds plain_def step_name_def param_text_def

section \<open>The machine\<close>

definition next_mode :: "mode \<Rightarrow> string \<Rightarrow> mode" where
  "next_mode m l = (if has_meta l then Capturing else if has_boundary l then Idle else m)"

definition events :: "mode \<Rightarrow> string \<Rightarrow> event list" where
  "events m l =
     (if has_step l then [StepComment (step_name l)] else []) @
     (if has_params l then [ParamComment (param_text l)] else []) @
     (if has_meta l then [MetaBlank]
      else if next_mode m l = Capturing then [Command (strip l)] else [])"

fun machine :: "mode \<Rightarrow> transcript \<Rightarrow> event list" where
  "machine m [] = []"
| "machine m (l # ls) = events m l @ (if terminal l then [] else machine (next_mode m l) ls)"

fun final_mode :: "mode \<Rightarrow> transcript \<Rightarrow> mode" where
  "final_mode m [] = m"
| "final_mode m (l # ls) =
     (if terminal l then next_mode m l else final_mode (next_mode m l) ls)"

text \<open>The lines a run reads: up to and with the first terminal line.\<close>

fun consumed :: "transcript \<Rightarrow> transcript" where
  "consumed [] = []"
| "consumed (l # ls) = (if terminal l then [l] else l # consumed ls)"

fun render :: "event \<Rightarrow> string" where
  "render (StepComment n) = ''# '' @ n @ [newline]"
| "render (ParamComment p) = ''# '' @ p @ [newline]"
| "render MetaBlank = [newline]"
| "render (Command c) = c @ [newline]"

fun is_comment :: "event \<Rightarrow> bool" where
  "is_comment (StepComment n) = True"
| "is_comment (ParamComment p) = True"
| "is_comment e = False"

section \<open>Step blocks\<close>

text \<open>
  The engine prints a step as its declaration line, further header lines (among them
  the parameter bindings), the metadata line, the commands, and a bracketed status line.
  \<open>wf_block\<close> says which markers each of these lines may hold for the block to be read
  as intended; \<open>block_events\<close> is what the block then contributes to the script.
\<close>

record block =
  b_rule :: string
  b_head :: "string list"
  b_meta :: string
  b_cmds :: "string list"
  b_foot :: string

definition block_lines :: "block \<Rightarrow> transcript" where
  "block_lines B = b_rule B # b_head B @ b_meta B # b_cmds B @ [b_foot B]"

definition block_events :: "block \<Rightarrow> event list" where
  "block_events B =
     StepComment (step_name (b_rule B)) #
     map (\<lambda>h. ParamComment (param_text h)) (filter has_params (b_head B)) @
     MetaBlank # map (\<lambda>c. Command (strip c)) (b_cmds B)"

definition wf_block :: "block \<Rightarrow> bool" where
  "wf_block B \<longleftrightarrow>
     has_step (b_rule B) \<and> \<not> has_params (b_rule B) \<and> \<not> has_meta (b_rule B) \<and>
     \<not> terminal (b_rule B) \<and>
     list_all (\<lambda>h. \<not> has_step h \<and> \<not> has_meta h) (b_head B) \<and>
     has_meta (b_meta B) \<and> \<not> has_step (b_meta B) \<and> \<not> has_params (b_meta B) \<and>
     list_all plain (b_cmds B) \<and>
     has_boundary (b_foot B) \<and> \<not> has_step (b_foot B) \<and> \<not> has_params (b_foot B) \<and>
     \<not> has_meta (b_foot B)"

section \<open>Line predicates\<close>

lemma terminal_has_step: "terminal l \<Longrightarrow> has_step l"
  using sublist_trans [of "''rule''" "''rule make_config''" l]
  by (simp add: line_preds sublist_code(3))

lemma not_step_not_terminal: "\<not> has_step l \<Longrightarrow> \<not> terminal l"
  using terminal_has_step by blast

lemma meta_not_terminal: "has_meta l \<Longrightarrow> \<not> terminal l"
  by (simp add: terminal_def)

lemma terminal_nonempty: "terminal l \<Longrightarrow> l \<noteq> []"
  by (auto simp: terminal_def)

lemma not_boundary_Nil [simp]: "\<not> has_boundary []"
  by (simp add: has_boundary_def)

section \<open>Runs\<close>

lemma run_append:
  "machine m (xs @ ys) =
     (if list_ex terminal xs then machine m xs else machine m xs @ machine (final_mode m xs) ys)"
  by (induction xs arbitrary: m) auto

lemma final_mode_append:
  "final_mode m (xs @ ys) =
     (if list_ex terminal xs then final_mode m xs else final_mode (final_mode m xs) ys)"
  by (induction xs arbitrary: m) auto

lemma run_consumed: "machine m (consumed ls) = machine m ls"
  by (induction ls arbitrary: m) auto

lemma consumed_no_terminal: "\<not> list_ex terminal ls \<Longrightarrow> consumed ls = ls"
  by (induction ls) auto

lemma consumed_prefix: "prefix (consumed ls) ls"
  by (induction ls) auto

lemma length_events_le: "length (events m l) \<le> 3"
  by (simp add: events_def)

lemma length_run_le: "length (machine m ls) \<le> 3 * length ls"
proof (induction ls arbitrary: m)
  case Nil
  show ?case by simp
next
  case (Cons l ls)
  from length_events_le [of m l] Cons [of "next_mode m l"] show ?case by auto
qed

section \<open>The idle machine\<close>

lemma idle_events_comments: "\<not> has_meta l \<Longrightarrow> list_all is_comment (events Idle l)"
  by (simp add: events_def next_mode_def)

lemma idle_stays: "\<not> has_meta l \<Longrightarrow> next_mode Idle l = Idle"
  by (simp add: next_mode_def)

lemma idle_run_comments: "\<not> list_ex has_meta ls \<Longrightarrow> list_all is_comment (machine Idle ls)"
  by (induction ls) (auto simp: idle_events_comments idle_stays)

lemma boundary_closes: "has_boundary l \<Longrightarrow> \<not> has_meta l \<Longrightarrow> next_mode m l = Idle"
  by (simp add: next_mode_def)

lemma render_comment: "is_comment e \<Longrightarrow> prefix ''# '' (render e)"
  by (cases e) simp_all

section \<open>Runs over step blocks\<close>

lemma run_idle_head:
  "list_all (\<lambda>h. \<not> has_step h \<and> \<not> has_meta h) hs \<Longrightarrow>
   machine Idle (hs @ rest) =
     map (\<lambda>h. ParamComment (param_text h)) (filter has_params hs) @ machine Idle rest"
  by (induction hs) (auto simp: events_def next_mode_def not_step_not_terminal)

lemma run_capturing_plain:
  "list_all plain cs \<Longrightarrow>
   machine Capturing (cs @ rest) = map (\<lambda>c. Command (strip c)) cs @ machine Capturing rest"
  by (induction cs) (auto simp: events_def next_mode_def plain_def not_step_not_terminal)

lemma run_block:
  assumes "wf_block B"
  shows "machine Idle (block_lines B @ rest) = block_events B @ machine Idle rest"
proof -
  let ?r = "b_rule B" and ?m = "b_meta B" and ?b = "b_foot B"
  from assms have r: "events Idle ?r = [StepComment (step_name ?r)]"
    "next_mode Idle ?r = Idle" "\<not> terminal ?r"
    by (simp_all add: wf_block_def events_def next_mode_def)
  from assms have m: "events Idle ?m = [MetaBlank]" "next_mode Idle ?m = Capturing"
    "\<not> terminal ?m"
    by (simp_all add: wf_block_def events_def next_mode_def meta_not_terminal)
  from assms have b: "events Capturing ?b = []" "next_mode Capturing ?b = Idle"
    "\<not> terminal ?b"
    by (simp_all add: wf_block_def events_def next_mode_def not_step_not_terminal)
  from assms have hd: "list_all (\<lambda>h. \<not> has_step h \<and> \<not> has_meta h) (b_head B)"
    and cs: "list_all plain (b_cmds B)"
    by (simp_all add: wf_block_def)
  have "machine Idle (block_lines B @ rest) =
      StepComment (step_name ?r) # machine Idle (b_head B @ (?m # b_cmds B @ ?b # rest))"
    using r by (simp add: block_lines_def)
  also have "machine Idle (b_head B @ (?m # b_cmds B @ ?b # rest)) =
      map (\<lambda>h. ParamComment (param_text h)) (filter has_params (b_head B)) @
      MetaBlank # machine Capturing (b_cmds B @ (?b # rest))"
    using m by (simp add: run_idle_head [OF hd])
  also have "machine Capturing (b_cmds B @ (?b # rest)) =
      map (\<lambda>c. Command (strip c)) (b_cmds B) @ machine Idle rest"
    using b by (simp add: run_capturing_plain [OF cs])
  finally show ?thesis by (simp add: block_events_def)
qed

lemma run_blocks:
  "list_all wf_block Bs \<Longrightarrow>
   machine Idle (concat (map block_lines Bs) @ rest) = concat (map block_events Bs) @ machine Idle rest"
  by (induction Bs) (simp_all add: run_block)

end
