(* ===== verification/Extractor.thy ===== *)
theory Extractor
  imports Extractor_Spec FileSys
begin

text \<open>
  The loop of \<^verbatim>\<open>print_cmds\<close> (\<^verbatim>\<open>src/workflow/utils.py\<close>, lines 80 to 99) as the code
  has it: the record \<open>extractor\<close> holds the loop variable \<^verbatim>\<open>l\<close>, the flag \<^verbatim>\<open>write\<close> and
  the writes made to \<^verbatim>\<open>f_out\<close> so far; each \<^verbatim>\<open>if\<close> of the loop body is one
  definition, \<open>body\<close> composes them in the order of the code and \<open>loop\<close> runs \<open>body\<close>
  over the lines until the \<^verbatim>\<open>break\<close>. \<open>commands\<close> is the list of strings that one call
  of \<^verbatim>\<open>print_cmds\<close> writes, and \<open>print_cmds\<close> the call itself, which leaves them in
  \<^verbatim>\<open>commands.sh\<close>.

  The lemmas first describe every statement by its effect on the three fields
  (collections \<open>frame\<close> and \<open>stmt_effects\<close>), then show that \<open>body\<close> and \<open>loop\<close> refine the
  step and the run of the machine of theory \<open>Extractor_Spec\<close>. The properties of the
  code follow from the refinement and the machine's algebra.
\<close>

section \<open>State and statements\<close>

record extractor =
  line :: string
  writing :: bool
  f_out :: "string list"

definition fwrite :: "string \<Rightarrow> extractor \<Rightarrow> extractor" where
  "fwrite x s = s\<lparr>f_out := f_out s @ [x]\<rparr>"

definition rule_stmt :: "extractor \<Rightarrow> extractor" where
  "rule_stmt s =
     (if sublist ''rule'' (line s)
      then fwrite (''# '' @ replace '':'' '''' (replace ''rule '' '''' (strip (line s)))
             @ [newline]) s
      else s)"

definition wildcards_stmt :: "extractor \<Rightarrow> extractor" where
  "wildcards_stmt s =
     (if sublist ''wildcards'' (line s)
      then fwrite (''# '' @ replace ''wildcards: '' '''' (strip (line s)) @ [newline]) s
      else s)"

definition resources_stmt :: "extractor \<Rightarrow> extractor" where
  "resources_stmt s =
     (if sublist ''resources'' (line s) then s\<lparr>writing := True, line := ''''\<rparr> else s)"

definition bracket_stmt :: "extractor \<Rightarrow> extractor" where
  "bracket_stmt s = (if sublist ''['' (line s) then s\<lparr>writing := False\<rparr> else s)"

definition write_stmt :: "extractor \<Rightarrow> extractor" where
  "write_stmt s = (if writing s then fwrite (strip (line s) @ [newline]) s else s)"

definition break_stmt :: "extractor \<Rightarrow> bool" where
  "break_stmt s = sublist ''rule make_config'' (line s)"

definition body :: "string \<Rightarrow> extractor \<Rightarrow> extractor" where
  "body l s =
     write_stmt (bracket_stmt (resources_stmt (wildcards_stmt (rule_stmt (s\<lparr>line := l\<rparr>)))))"

fun loop :: "extractor \<Rightarrow> transcript \<Rightarrow> extractor" where
  "loop s [] = s"
| "loop s (l # ls) = (let s' = body l s in if break_stmt s' then s' else loop s' ls)"

text \<open>The non-empty lines of the captured text, and the state before the first line.\<close>

definition fi :: "string \<Rightarrow> transcript" where
  "fi f = filter (\<lambda>l. l \<noteq> '''') (split [newline] f)"

definition init :: extractor where
  "init = \<lparr>line = '''', writing = False, f_out = []\<rparr>"

definition commands :: "string \<Rightarrow> string list" where
  "commands f = f_out (loop init (fi f))"

text \<open>
  The function on the file system: \<^verbatim>\<open>commands.sh\<close> in the current directory is made, or
  replaced, with the writes of the loop one after the other.
\<close>

definition print_cmds :: "string \<Rightarrow> unit io" where
  "print_cmds f = write_file ''commands.sh'' (concat (commands f))"

definition mode_of :: "extractor \<Rightarrow> mode" where
  "mode_of s = (if writing s then Capturing else Idle)"

text \<open>A write that is one line of the script: it ends in a newline and holds no other.\<close>

definition is_line :: "string \<Rightarrow> bool" where
  "is_line x \<longleftrightarrow> x \<noteq> [] \<and> last x = newline \<and> nl_free (butlast x)"

text \<open>
  The step block of the end-to-end scenario: a declaration, one parameter binding, the
  metadata line, two commands and a status line.
\<close>

definition scenario_A :: block where
  "scenario_A = \<lparr>b_rule = ''rule align:'', b_head = [''    wildcards: sample=S1''],
     b_meta = ''    resources: tmpdir=/tmp'',
     b_cmds = [''        bwa mem S1.fq  '', ''        samtools sort''],
     b_foot = ''[Mon Jan  1 00:00:00 2024]''\<rparr>"

lemmas [stmt_defs] = fwrite_def rule_stmt_def wildcards_stmt_def resources_stmt_def
  bracket_stmt_def write_stmt_def break_stmt_def body_def

lemmas [py_eval] = fi_def init_def commands_def

section \<open>The effect of each statement\<close>

lemma fwrite_simps [simp]:
  "line (fwrite x s) = line s" "writing (fwrite x s) = writing s"
  "f_out (fwrite x s) = f_out s @ [x]"
  by (simp_all add: fwrite_def)

lemma rule_stmt_frame [frame]:
  "line (rule_stmt s) = line s" "writing (rule_stmt s) = writing s"
  by (simp_all add: rule_stmt_def)

lemma wildcards_stmt_frame [frame]:
  "line (wildcards_stmt s) = line s" "writing (wildcards_stmt s) = writing s"
  by (simp_all add: wildcards_stmt_def)

lemma resources_stmt_frame [frame]: "f_out (resources_stmt s) = f_out s"
  by (simp add: resources_stmt_def)

lemma bracket_stmt_frame [frame]:
  "line (bracket_stmt s) = line s" "f_out (bracket_stmt s) = f_out s"
  by (simp_all add: bracket_stmt_def)

lemma write_stmt_frame [frame]:
  "line (write_stmt s) = line s" "writing (write_stmt s) = writing s"
  by (simp_all add: write_stmt_def)

lemma f_out_rule_stmt:
  "f_out (rule_stmt s) =
     f_out s @ (if has_step (line s) then [render (StepComment (step_name (line s)))] else [])"
  by (simp add: rule_stmt_def has_step_def step_name_def)

lemma f_out_wildcards_stmt:
  "f_out (wildcards_stmt s) =
     f_out s @
     (if has_params (line s) then [render (ParamComment (param_text (line s)))] else [])"
  by (simp add: wildcards_stmt_def has_params_def param_text_def)

lemma resources_stmt_effect:
  "line (resources_stmt s) = (if has_meta (line s) then [] else line s)"
  "writing (resources_stmt s) = (has_meta (line s) \<or> writing s)"
  by (simp_all add: resources_stmt_def has_meta_def)

lemma writing_bracket_stmt:
  "writing (bracket_stmt s) = (\<not> has_boundary (line s) \<and> writing s)"
  by (simp add: bracket_stmt_def has_boundary_def)

lemma f_out_write_stmt:
  "f_out (write_stmt s) = f_out s @ (if writing s then [strip (line s) @ [newline]] else [])"
  by (simp add: write_stmt_def)

lemmas stmt_effects = f_out_rule_stmt f_out_wildcards_stmt resources_stmt_effect
  writing_bracket_stmt f_out_write_stmt

section \<open>The loop refines the machine\<close>

lemma line_body: "line (body l s) = (if has_meta l then [] else l)"
  by (simp add: body_def frame stmt_effects)

lemma writing_body: "writing (body l s) = (has_meta l \<or> \<not> has_boundary l \<and> writing s)"
  by (simp add: body_def frame stmt_effects)

lemma mode_body: "mode_of (body l s) = next_mode (mode_of s) l"
  by (simp add: mode_of_def next_mode_def writing_body)

lemma f_out_body: "f_out (body l s) = f_out s @ map render (events (mode_of s) l)"
  by (simp add: body_def frame stmt_effects events_def next_mode_def mode_of_def)

lemma break_body: "break_stmt (body l s) \<longleftrightarrow> terminal l"
  by (simp add: break_stmt_def line_body terminal_def)

lemmas body_simps = mode_body f_out_body break_body

lemma loop_consumed: "loop s ls = fold body (consumed ls) s"
  by (induction ls arbitrary: s) (simp_all add: break_body Let_def)

lemma f_out_loop: "f_out (loop s ls) = f_out s @ map render (machine (mode_of s) ls)"
  by (induction ls arbitrary: s) (simp_all add: body_simps Let_def)

lemma mode_loop: "mode_of (loop s ls) = final_mode (mode_of s) ls"
  by (induction ls arbitrary: s) (simp_all add: body_simps Let_def)

lemma mode_of_init [simp]: "mode_of init = Idle"
  by (simp add: mode_of_def init_def)

lemma f_out_init [simp]: "f_out init = []"
  by (simp add: init_def)

section \<open>Lines of the captured text and of the script\<close>

lemma fi_append: "fi (a @ newline # b) = fi a @ fi b"
  by (simp add: fi_def split_char_append)

lemma fi_Nil [simp]: "fi [] = []"
  by (simp add: fi_def)

lemma fi_line: "nl_free m \<Longrightarrow> m \<noteq> [] \<Longrightarrow> fi m = [m]"
  by (simp add: fi_def split_absent)

lemma nl_free_fi: "list_all (\<lambda>l. l \<noteq> [] \<and> nl_free l) (fi f)"
  by (auto simp: fi_def list_all_iff dest: split_char_pieces)

lemma nl_free_strip: "nl_free l \<Longrightarrow> nl_free (strip l)"
  using set_strip by blast

lemma nl_free_replace: "nl_free l \<Longrightarrow> nl_free new \<Longrightarrow> nl_free (replace old new l)"
  using set_replace [of old new l] by blast

lemma nl_free_names:
  "nl_free l \<Longrightarrow> nl_free (step_name l)" "nl_free l \<Longrightarrow> nl_free (param_text l)"
  by (simp_all add: step_name_def param_text_def nl_free_strip nl_free_replace)

lemma is_line_render_iff [simp]:
  "is_line (render (StepComment n)) \<longleftrightarrow> nl_free n"
  "is_line (render (ParamComment p)) \<longleftrightarrow> nl_free p"
  "is_line (render MetaBlank)"
  "is_line (render (Command c)) \<longleftrightarrow> nl_free c"
  by (simp_all add: is_line_def butlast_append)

lemma is_line_render: "nl_free l \<Longrightarrow> e \<in> set (events m l) \<Longrightarrow> is_line (render e)"
  by (auto simp: events_def nl_free_names nl_free_strip simp del: render.simps
      split: if_splits)

lemma is_line_run: "list_all nl_free ls \<Longrightarrow> list_all is_line (map render (machine m ls))"
  by (induction ls arbitrary: m) (auto simp: list_all_iff is_line_render)

lemma split_lines:
  "list_all is_line xs \<Longrightarrow> split [newline] (concat xs) = map butlast xs @ [[]]"
proof (induction xs)
  case Nil
  show ?case by simp
next
  case (Cons x xs)
  then obtain y where x: "x = y @ [newline]" and y: "nl_free y"
    by (auto simp: is_line_def) (metis append_butlast_last_id)
  from Cons have "split [newline] (concat xs) = map butlast xs @ [[]]" by simp
  with x y show ?case
    using split_char_append [of newline y "concat xs"] by (simp add: split_absent)
qed

lemma wf_scenario_A: "wf_block scenario_A"
  by (simp add: scenario_A_def wf_block_def py_eval)

section \<open>Properties of the extractor\<close>

text \<open>
  C1 (refinement). The strings one call of \<^verbatim>\<open>print_cmds\<close> writes are the rendered events
  of the two-state machine, started idle, over the non-empty lines of the captured text:
  the sequence of \<^verbatim>\<open>if\<close> statements with its mutation of \<^verbatim>\<open>l\<close> and \<^verbatim>\<open>write\<close>
  implements the transition table.
\<close>

theorem commands_refine: "commands f = map render (machine Idle (fi f))"
  by (simp add: commands_def f_out_loop)

text \<open>
  C5 (truncation). When the captured text holds a terminal line (one with
  \<^verbatim>\<open>rule make_config\<close> and without the metadata marker), nothing that follows it reaches
  the script: the text cut after that line gives the same writes.
\<close>

theorem commands_truncation:
  assumes "terminal m" and "nl_free m" and "a = [] \<or> last a = newline"
  shows "commands (a @ m @ newline # b) = commands (a @ m)"
proof -
  from assms(1) have ne: "m \<noteq> []" by (rule terminal_nonempty)
  have pre: "fi (a @ m) = fi a @ [m]"
  proof (cases "a = []")
    case True
    with assms(2) ne show ?thesis by (simp add: fi_line)
  next
    case False
    with assms(3) obtain a' where "a = a' @ [newline]"
      by (metis append_butlast_last_id)
    with assms(2) ne show ?thesis by (simp add: fi_append fi_line)
  qed
  have "fi (a @ m @ newline # b) = fi (a @ m) @ fi b"
    using fi_append [of "a @ m" b] by simp
  with pre assms(1) show ?thesis
    by (simp add: commands_def f_out_loop run_append)
qed

theorem commands_truncation_witness:
  "commands (''rule a:\<newline>'' @ ''rule make_config:'' @ newline # ''rule b:\<newline>  resources: x\<newline>ls'') =
     commands (''rule a:\<newline>'' @ ''rule make_config:'')
   \<and> commands (''rule a:\<newline>'' @ ''rule make_config:'') = [''# a\<newline>'', ''# make_config\<newline>'']"
proof
  show "commands (''rule a:\<newline>'' @ ''rule make_config:'' @ newline # ''rule b:\<newline>  resources: x\<newline>ls'') =
     commands (''rule a:\<newline>'' @ ''rule make_config:'')"
    by (rule commands_truncation) (simp_all add: py_eval)
  show "commands (''rule a:\<newline>'' @ ''rule make_config:'') = [''# a\<newline>'', ''# make_config\<newline>'']"
    by (simp add: py_eval stmt_defs Let_def)
qed

text \<open>
  C7 (step blocks). Started with \<^verbatim>\<open>write\<close> false on a sequence of well-formed step
  blocks, the loop writes for every block the comment of its step, the comments of its
  parameter bindings, one empty line for the metadata line, and its commands, trimmed;
  the status lines and the other header lines leave nothing.
\<close>

theorem blocks_output:
  assumes "list_all wf_block Bs" and "\<not> writing s"
  shows "f_out (loop s (concat (map block_lines Bs))) =
           f_out s @ map render (concat (map block_events Bs))"
  using run_blocks [OF assms(1), of "[]"] assms(2) by (simp add: f_out_loop mode_of_def)

theorem blocks_output_witness:
  "f_out (loop init (concat (map block_lines [scenario_A]))) =
     [''# align\<newline>'', ''# sample=S1\<newline>'', ''\<newline>'', ''bwa mem S1.fq\<newline>'', ''samtools sort\<newline>'']"
proof -
  have "list_all wf_block [scenario_A]" by (simp add: wf_scenario_A)
  moreover have "\<not> writing init" by (simp add: init_def)
  ultimately have "f_out (loop init (concat (map block_lines [scenario_A]))) =
      f_out init @ map render (concat (map block_events [scenario_A]))"
    by (rule blocks_output)
  then show ?thesis
    by (simp add: block_events_def scenario_A_def py_eval)
qed

text \<open>
  C12 (closed capture). After a line with an opening bracket (and no metadata marker) the
  loop writes only comments until a line with the metadata marker reopens capture: every
  write made for the following lines starts with \<^verbatim>\<open>#\<close> and a space.
\<close>

theorem closed_until_reopened:
  assumes "has_boundary b" and "\<not> has_meta b" and "\<not> list_ex has_meta ls"
  shows "\<exists>cs. f_out (loop s (b # ls)) = f_out (body b s) @ cs \<and> list_all (prefix ''# '') cs"
proof (cases "terminal b")
  case True
  then show ?thesis by (simp add: break_body Let_def)
next
  case False
  from assms(1,2) have "mode_of (body b s) = Idle"
    by (simp add: mode_body boundary_closes)
  with False have "f_out (loop s (b # ls)) = f_out (body b s) @ map render (machine Idle ls)"
    by (simp add: break_body Let_def f_out_loop)
  moreover from idle_run_comments [OF assms(3)]
  have "list_all (prefix ''# '') (map render (machine Idle ls))"
    by (auto simp: list_all_iff intro: render_comment)
  ultimately show ?thesis by blast
qed

theorem closed_until_reopened_witness:
  "\<exists>cs. f_out (loop (init\<lparr>writing := True\<rparr>) (''[Mon Jan 1]'' # [''rule b:'', ''  echo lost''])) =
          f_out (body ''[Mon Jan 1]'' (init\<lparr>writing := True\<rparr>)) @ cs
        \<and> list_all (prefix ''# '') cs"
  by (rule closed_until_reopened) (simp_all add: py_eval)

text \<open>
  C29 (script lines). Every string written is one line: it ends in a newline and holds
  no other. Hence the script, split at newlines, gives back the writes without their
  newline, followed by one empty piece.
\<close>

theorem commands_are_lines:
  "list_all is_line (commands f) \<and>
   split [newline] (concat (commands f)) = map butlast (commands f) @ [[]]"
proof -
  have "list_all nl_free (fi f)"
    using nl_free_fi [of f] by (simp add: list_all_iff)
  then have "list_all is_line (commands f)"
    by (simp add: commands_def f_out_loop is_line_run)
  then show ?thesis by (simp add: split_lines)
qed


text \<open>
  C31 (no terminal line). When no line is terminal the loop reads the whole transcript:
  its final state is the fold of the loop body over all lines.
\<close>

theorem loop_reads_all:
  assumes "\<not> list_ex terminal ls"
  shows "loop s ls = fold body ls s"
  using assms by (simp add: loop_consumed consumed_no_terminal)

theorem loop_reads_all_witness:
  "loop init [''rule a:'', ''  resources: x'', ''  ls''] =
     fold body [''rule a:'', ''  resources: x'', ''  ls''] init"
  by (rule loop_reads_all) (simp add: py_eval)

text \<open>
  C13 (the script). In a well-formed file system, after a successful call of \<^verbatim>\<open>print_cmds\<close>
  the file \<^verbatim>\<open>commands.sh\<close> of the current directory reads as the rendered events of the
  machine over the non-empty lines of the captured text, one after the other; what the
  file held before is gone.
\<close>

theorem print_cmds_script:
  assumes "wf_fs f" and "print_cmds t f = (Inr (), f')"
  shows "read_file ''commands.sh'' f' = (Inr (concat (map render (machine Idle (fi t)))), f')"
  using write_read [OF assms(1)] assms(2) by (simp add: print_cmds_def commands_def f_out_loop)

theorem print_cmds_script_witness:
  "read_file ''commands.sh'' (snd (print_cmds ''rule a:'' \<lparr>nodes = [[] \<mapsto> Dir], cwd = []\<rparr>)) =
     (Inr (concat (map render (machine Idle (fi ''rule a:'')))),
      snd (print_cmds ''rule a:'' \<lparr>nodes = [[] \<mapsto> Dir], cwd = []\<rparr>))"
proof -
  let ?f = "\<lparr>nodes = [[] \<mapsto> Dir], cwd = []\<rparr>"
  have "wf_fs ?f" by (simp add: wf_fs_def tree_def)
  moreover have "fst (print_cmds ''rule a:'' ?f) = Inr ()" by code_simp
  then have "print_cmds ''rule a:'' ?f = (Inr (), snd (print_cmds ''rule a:'' ?f))"
    by (simp add: prod_eq_iff)
  ultimately show ?thesis by (rule print_cmds_script)
qed

end
