(* ===== verification/Dispatcher.thy ===== *)
theory Dispatcher
  imports Config Provisioner Extractor
begin

text \<open>
  The command line module \<^verbatim>\<open>src/workflow/virus-phage-detect.py\<close>: the two ways to call
  the engine (\<^verbatim>\<open>sbatch\<close>, \<^verbatim>\<open>cmd_line\<close>), the commands \<^verbatim>\<open>run\<close>, \<^verbatim>\<open>cleanup\<close> and \<^verbatim>\<open>test\<close>,
  and the command group. A command is a program over the process; what lies outside the
  repository (the names bound in the module, the engine, the YAML loader, the CSV
  reader, the iteration order of sets, the location of the module's file) is the record
  \<open>deps\<close> the commands are run with. The parsing of the command line is not modelled:
  a command starts from the record of its options.

  The body of \<^verbatim>\<open>run\<close> is modelled statement by statement, the use of the names \<^verbatim>\<open>os\<close>,
  \<^verbatim>\<open>get_conda_prefix\<close> and \<^verbatim>\<open>io\<close> included, none of which the module binds. The lemmas
  show what \<^verbatim>\<open>run\<close> does in the module as it is (it raises \<^verbatim>\<open>NameError\<close> unless asked
  for the version) and in a module that binds the three names: which invocations of the
  engine it issues, in which order and with which settings, and how an error of the
  engine comes back.
\<close>

section \<open>The module and its surroundings\<close>

text \<open>
  The names bound in the module when a command runs: those its imports bind and those
  its own definitions bind.
\<close>

definition module_globals :: "string list" where
  "module_globals =
     [''click'', ''DefaultGroup'', ''redirect_stdout'', ''getcwd'', ''makedirs'', ''abspath'',
      ''dirname'', ''exists'', ''join'', ''pd'', ''snakemake'', ''main'', ''rmtree'',
      ''Workflow_Dirs'', ''print_cmds'', ''cleanup_files'',
      ''cli'', ''sbatch'', ''cmd_line'', ''run'', ''cleanup'', ''test'']"

text \<open>
  What the module is run with: the names bound in it, the engine, the YAML loader, the
  CSV reader, the order in which a set of strings is iterated, and the path of the
  module's file.
\<close>

record deps =
  globals :: "string list"
  engine_of :: engine
  loader_of :: loader
  reader_of :: reader
  set_iter :: "string list \<Rightarrow> string list"
  script :: string

text \<open>The options of the \<^verbatim>\<open>run\<close> command, as the command line parser hands them over.\<close>

record run_args =
  opt_cores :: int
  opt_work_dir :: string
  opt_samples :: string
  opt_parameters :: "string option"
  opt_resources :: "string option"
  opt_slurm :: bool
  opt_dry_run :: bool
  opt_unlock :: bool
  opt_version :: bool

definition default_args :: "string \<Rightarrow> string \<Rightarrow> run_args" where
  "default_args d s =
     \<lparr>opt_cores = 1, opt_work_dir = d, opt_samples = s, opt_parameters = None,
      opt_resources = None, opt_slurm = False, opt_dry_run = False, opt_unlock = False,
      opt_version = False\<rparr>"

section \<open>The two ways to call the engine\<close>

text \<open>
  The argument vector \<^verbatim>\<open>sbatch\<close> hands to the engine's \<^verbatim>\<open>main\<close>. The three configuration
  strings are the elements of a set display: they come in the order the set is iterated.
\<close>

definition sbatch_argv ::
  "deps \<Rightarrow> string \<Rightarrow> string \<Rightarrow> string \<Rightarrow> string \<Rightarrow> string \<Rightarrow> string \<Rightarrow> int \<Rightarrow> pyval \<Rightarrow> string
     \<Rightarrow> pyval list" where
  "sbatch_argv D workflow work_dir samples env_yamls pyaml ryaml n env_dir s_dir =
     (let cfg_wd = ''work_dir='' @ work_dir;
          cfg_sp = ''samples='' @ samples;
          cfg_ey = ''env_yamls='' @ env_yamls
      in [PStr ''--snakefile'', PStr workflow, PStr ''--config''] @
         map PStr (set_iter D [cfg_wd, cfg_sp, cfg_ey]) @
         [PStr ''--configfiles'', PStr pyaml, PStr ryaml,
          PStr ''--jobs'', PStr (str_int n),
          PStr ''--restart-times'', PStr ''2'',
          PStr ''--use-conda'',
          PStr ''--conda-frontend'', PStr ''conda'',
          PStr ''--conda-prefix'', env_dir,
          PStr ''--printshellcmds'',
          PStr ''--keep-going'',
          PStr ''--latency-wait'', PStr ''60'',
          PStr ''--profile'', PStr s_dir])"

definition sbatch ::
  "deps \<Rightarrow> string \<Rightarrow> string \<Rightarrow> string \<Rightarrow> string \<Rightarrow> string \<Rightarrow> string \<Rightarrow> int \<Rightarrow> pyval \<Rightarrow> string
     \<Rightarrow> unit act" where
  "sbatch D workflow work_dir samples env_yamls pyaml ryaml n env_dir s_dir =
     invoke (engine_of D)
       (Argv (sbatch_argv D workflow work_dir samples env_yamls pyaml ryaml n env_dir s_dir))"

text \<open>The keyword arguments \<^verbatim>\<open>cmd_line\<close> hands to the engine's \<^verbatim>\<open>snakemake\<close>.\<close>

definition cmd_line_args ::
  "string \<Rightarrow> string \<Rightarrow> string \<Rightarrow> string \<Rightarrow> string \<Rightarrow> string \<Rightarrow> int \<Rightarrow> pyval \<Rightarrow> bool \<Rightarrow> bool
     \<Rightarrow> api_call" where
  "cmd_line_args workflow work_dir samples env_yamls pyaml ryaml n env_dir dry_run unl =
     \<lparr>snakefile = workflow,
      config = [(''work_dir'', work_dir), (''samples'', samples), (''env_yamls'', env_yamls)],
      configfiles = [pyaml, ryaml],
      cores = n,
      restart_times = 2,
      use_conda = True,
      conda_prefix = env_dir,
      printshellcmds = True,
      keepgoing = True,
      latency_wait = 60,
      dryrun = dry_run,
      unlock = unl\<rparr>"

definition cmd_line ::
  "deps \<Rightarrow> string \<Rightarrow> string \<Rightarrow> string \<Rightarrow> string \<Rightarrow> string \<Rightarrow> string \<Rightarrow> int \<Rightarrow> pyval \<Rightarrow> bool
     \<Rightarrow> bool \<Rightarrow> unit act" where
  "cmd_line D workflow work_dir samples env_yamls pyaml ryaml n env_dir dry_run unl =
     invoke (engine_of D)
       (Api (cmd_line_args workflow work_dir samples env_yamls pyaml ryaml n env_dir dry_run unl))"

section \<open>The commands\<close>

text \<open>\<^verbatim>\<open>dirname(dirname(abspath(__file__)))\<close>.\<close>

definition main_dir_of :: "deps \<Rightarrow> string act" where
  "main_dir_of D = io_bind (lift getcwd) (\<lambda>c. io_return (dirname (dirname (abspath c (script D)))))"

text \<open>\<^verbatim>\<open>x if x else d\<close> for an option that is a string or \<^verbatim>\<open>None\<close>.\<close>

definition or_else :: "string option \<Rightarrow> string \<Rightarrow> string" where
  "or_else x d = (case x of None \<Rightarrow> d | Some v \<Rightarrow> if v = [] then d else v)"

definition quotes :: string where
  "quotes = replicate 3 (CHR 0x22)"

text \<open>The branch of \<^verbatim>\<open>run\<close> for \<^verbatim>\<open>--version\<close>.\<close>

definition show_version :: "string \<Rightarrow> unit act" where
  "show_version main_dir =
     io_bind (lift (read_file (join main_dir [''workflow'', ''__init__.py'']))) (\<lambda>txt.
     let f = readlines txt in
     io_bind (index f 0) (\<lambda>l0.
     let m = replace ('' module.'' @ quotes) [] (replace (quotes @ ''Top-level package for the '') [] l0) in
     io_bind (index f 4) (\<lambda>l4.
     io_bind (index (split '' = '' l4) 1) (\<lambda>v.
     print (m @ '': version '' @ v)))))"

text \<open>The statement of \<^verbatim>\<open>run\<close> for \<^verbatim>\<open>--unlock\<close>.\<close>

definition unlock_stmt ::
  "deps \<Rightarrow> run_args \<Rightarrow> string \<Rightarrow> string \<Rightarrow> string \<Rightarrow> string \<Rightarrow> pyval \<Rightarrow> unit act" where
  "unlock_stmt D a workflow env_yamls pyaml ryaml env_dir =
     (if opt_unlock a
      then io_seq
        (cmd_line D workflow (opt_work_dir a) (opt_samples a) env_yamls pyaml ryaml
           (opt_cores a) env_dir False (opt_unlock a))
        (io_bind (lift getcwd) (\<lambda>c. lift (rmtree (join c [''.snakemake'']))))
      else io_return ())"

text \<open>The last statement of \<^verbatim>\<open>run\<close>: the choice of the mode.\<close>

definition mode_stmt ::
  "deps \<Rightarrow> run_args \<Rightarrow> string \<Rightarrow> string \<Rightarrow> string \<Rightarrow> string \<Rightarrow> string \<Rightarrow> pyval \<Rightarrow> unit act" where
  "mode_stmt D a main_dir workflow env_yamls pyaml ryaml env_dir =
     (if opt_slurm a
      then sbatch D workflow (opt_work_dir a) (opt_samples a) env_yamls pyaml ryaml
             (opt_cores a) env_dir (join main_dir [''configs'', ''sbatch''])
      else if opt_dry_run a
      then io_bind (lift (Workflow_Dirs (opt_work_dir a) ''virus_phage_detect'')) (\<lambda>dirs.
           io_seq (name (globals D) ''io'')
          (io_bind (redirect_stdout
             (cmd_line D workflow (opt_work_dir a) (opt_samples a) env_yamls pyaml ryaml
                (opt_cores a) env_dir True False)) (\<lambda>f.
           lift (print_cmds f))))
      else cmd_line D workflow (opt_work_dir a) (opt_samples a) env_yamls pyaml ryaml
             (opt_cores a) env_dir False False)"

definition run :: "deps \<Rightarrow> run_args \<Rightarrow> unit act" where
  "run D a =
     io_bind (main_dir_of D) (\<lambda>main_dir.
     let workflow = join main_dir [''workflow'', ''Snakefile''] in
     if opt_version a then show_version main_dir
     else
       let pyaml = or_else (opt_parameters a) (join main_dir [''configs'', ''parameters.yaml'']);
           ryaml = or_else (opt_resources a) (join main_dir [''configs'', ''resources.yaml''])
       in io_seq (name (globals D) ''os'')
         (let env_yamls = join main_dir [''configs'', ''conda''] in
          io_seq (name (globals D) ''get_conda_prefix'')
         (io_bind (lift (get_conda_prefix (loader_of D) pyaml)) (\<lambda>env_dir.
          io_seq (unlock_stmt D a workflow env_yamls pyaml ryaml env_dir)
            (mode_stmt D a main_dir workflow env_yamls pyaml ryaml env_dir)))))"

text \<open>\<^verbatim>\<open>cleanup_files\<close> of \<^verbatim>\<open>utils.py\<close>: it reads the sample names and does nothing.\<close>

definition cleanup_files :: "string \<Rightarrow> dataframe \<Rightarrow> unit act" where
  "cleanup_files work_dir df = (let smps = df_index df in io_return ())"

definition cleanup :: "deps \<Rightarrow> string \<Rightarrow> string \<Rightarrow> unit act" where
  "cleanup D work_dir samples =
     io_bind (lift (read_csv (reader_of D) samples)) (\<lambda>df. cleanup_files work_dir df)"

definition test :: "deps \<Rightarrow> unit act" where
  "test D =
     io_bind (main_dir_of D) (\<lambda>main_dir.
     let workflow = join main_dir [''workflow'', ''Snakefile''];
         work_dir = join main_dir [''test_out''];
         samples = join main_dir [''test_data'', ''samples.csv''];
         pyaml = join main_dir [''test_data'', ''parameters.yaml''];
         ryaml = join main_dir [''test_data'', ''resources.yaml''];
         env_dir = join main_dir [''conda_envs'']
     in io_seq (lift (\<lambda>f. if \<not> exists f env_dir then makedirs env_dir f else (Inr (), f)))
       (let env_yamls = join main_dir [''configs'', ''conda'']
        in cmd_line D workflow work_dir samples env_yamls pyaml ryaml 10 (PStr env_dir)
             False False))"

text \<open>The command group: \<^verbatim>\<open>run\<close> is the default command.\<close>

datatype command = Run run_args | Cleanup string string | Test

definition cli :: "deps \<Rightarrow> command \<Rightarrow> unit act" where
  "cli D c = (case c of Run a \<Rightarrow> run D a | Cleanup d s \<Rightarrow> cleanup D d s | Test \<Rightarrow> test D)"

section \<open>The plan of a run\<close>

text \<open>
  The values \<^verbatim>\<open>run\<close> computes before it calls the engine, as functions of the module's
  directory, and from them the invocations a run is to issue: the unlock invocation
  where asked for, then the one of the mode chosen.
\<close>

definition main_dir :: "deps \<Rightarrow> fs \<Rightarrow> string" where
  "main_dir D f = dirname (dirname (abspath (CHR ''/'' # str_join ''/'' (cwd f)) (script D)))"

definition workflow_of :: "string \<Rightarrow> string" where
  "workflow_of md = join md [''workflow'', ''Snakefile'']"

definition pyaml_of :: "run_args \<Rightarrow> string \<Rightarrow> string" where
  "pyaml_of a md = or_else (opt_parameters a) (join md [''configs'', ''parameters.yaml''])"

definition ryaml_of :: "run_args \<Rightarrow> string \<Rightarrow> string" where
  "ryaml_of a md = or_else (opt_resources a) (join md [''configs'', ''resources.yaml''])"

definition env_yamls_of :: "string \<Rightarrow> string" where
  "env_yamls_of md = join md [''configs'', ''conda'']"

definition api_of :: "run_args \<Rightarrow> string \<Rightarrow> pyval \<Rightarrow> bool \<Rightarrow> bool \<Rightarrow> invocation" where
  "api_of a md env dr un =
     Api (cmd_line_args (workflow_of md) (opt_work_dir a) (opt_samples a) (env_yamls_of md)
       (pyaml_of a md) (ryaml_of a md) (opt_cores a) env dr un)"

definition mode_call :: "deps \<Rightarrow> run_args \<Rightarrow> string \<Rightarrow> pyval \<Rightarrow> invocation" where
  "mode_call D a md env =
     (if opt_slurm a
      then Argv (sbatch_argv D (workflow_of md) (opt_work_dir a) (opt_samples a) (env_yamls_of md)
             (pyaml_of a md) (ryaml_of a md) (opt_cores a) env (join md [''configs'', ''sbatch'']))
      else api_of a md env (opt_dry_run a) False)"

definition planned :: "deps \<Rightarrow> run_args \<Rightarrow> string \<Rightarrow> pyval \<Rightarrow> invocation list" where
  "planned D a md env =
     (if opt_unlock a then [api_of a md env False True] else []) @ [mode_call D a md env]"

text \<open>The settings every invocation has to carry.\<close>

definition api_ok :: "api_call \<Rightarrow> bool" where
  "api_ok c \<longleftrightarrow>
     map fst (config c) = [''work_dir'', ''samples'', ''env_yamls''] \<and>
     length (configfiles c) = 2 \<and> restart_times c = 2 \<and> use_conda c \<and>
     printshellcmds c \<and> keepgoing c \<and> latency_wait c = 60"

definition argv_ok :: "pyval list \<Rightarrow> bool" where
  "argv_ok v \<longleftrightarrow>
     sublist [PStr ''--restart-times'', PStr ''2''] v \<and>
     sublist [PStr ''--latency-wait'', PStr ''60''] v \<and>
     PStr ''--use-conda'' \<in> set v \<and> PStr ''--keep-going'' \<in> set v \<and>
     PStr ''--printshellcmds'' \<in> set v \<and> PStr ''--profile'' \<in> set v"

definition contract_ok :: "invocation \<Rightarrow> bool" where
  "contract_ok i = (case i of Api c \<Rightarrow> api_ok c | Argv v \<Rightarrow> argv_ok v)"

text \<open>The first line of the package file without the text around the module's name.\<close>

definition version_name :: "string \<Rightarrow> string" where
  "version_name l0 =
     replace ('' module.'' @ quotes) [] (replace (quotes @ ''Top-level package for the '') [] l0)"

text \<open>
  The surroundings and the process of the examples: an engine that prints one line and
  touches nothing, a loader that finds a prefix, and a file system with the working
  directory only.
\<close>

definition deps0 :: deps where
  "deps0 =
     \<lparr>globals = module_globals,
      engine_of = (\<lambda>i f. (Inr (), ''rule all:'', f)),
      loader_of = (\<lambda>txt. Inr (PDict [(PStr ''conda_prefix'', PStr ''/envs'')])),
      reader_of = (\<lambda>txt. Inr \<lparr>df_index = [], df_values = []\<rparr>),
      set_iter = rev,
      script = ''/m/workflow/virus-phage-detect.py''\<rparr>"

definition proc0 :: proc where
  "proc0 = \<lparr>fsys = fs_empty, out = [], calls = []\<rparr>"

text \<open>
  The same with a module that binds the three names, a module directory \<^verbatim>\<open>/m\<close> that holds
  the parameters file and the package file, and an engine that fails.
\<close>

definition init_py :: string where
  "init_py =
     quotes @ ''Top-level package for the CAMP virus-phage-detect module.'' @ quotes @
     [newline, newline] @
     ''__author__ = '' @ quotes @ [newline] @
     ''__email__ = '' @ quotes @ [newline] @
     ''__version__ = 0.1.0'' @ [newline]"

definition fs_module :: fs where
  "fs_module =
     \<lparr>nodes = [[] \<mapsto> Dir, [''w''] \<mapsto> Dir, [''m''] \<mapsto> Dir,
        [''m'', ''configs''] \<mapsto> Dir,
        [''m'', ''configs'', ''parameters.yaml''] \<mapsto> File ''conda_prefix: /envs'',
        [''m'', ''workflow''] \<mapsto> Dir,
        [''m'', ''workflow'', ''__init__.py''] \<mapsto> File init_py],
      cwd = [''w'']\<rparr>"

definition deps1 :: deps where
  "deps1 = deps0\<lparr>globals := ''os'' # ''io'' # ''get_conda_prefix'' # module_globals\<rparr>"

definition deps2 :: deps where
  "deps2 = deps1\<lparr>engine_of := (\<lambda>i f. (Inl (SystemExit 1), ''error'', f))\<rparr>"

definition proc1 :: proc where
  "proc1 = \<lparr>fsys = fs_module, out = [], calls = []\<rparr>"

definition args1 :: run_args where
  "args1 = default_args ''/w'' ''/w/samples.csv''"


lemmas plan_defs = workflow_of_def pyaml_of_def ryaml_of_def env_yamls_of_def api_of_def
  mode_call_def planned_def

section \<open>Settings of the invocations\<close>

lemma api_ok_cmd_line_args [simp]: "api_ok (cmd_line_args w d sm ey py ry n e dr un)"
  by (simp add: api_ok_def cmd_line_args_def)

lemma argv_ok_sbatch_argv [simp]: "argv_ok (sbatch_argv D w d sm ey py ry n e sd)"
  unfolding argv_ok_def sbatch_argv_def Let_def
  by (intro conjI sublist_append_left) (simp_all add: sublist_Cons_right)

lemma issues_cmd_line:
  "issues contract_ok s (snd (cmd_line D w d sm ey py ry n e dr un s))"
  by (simp add: cmd_line_def issues_invoke contract_ok_def)

lemma issues_sbatch: "issues contract_ok s (snd (sbatch D w d sm ey py ry n e sd s))"
  by (simp add: sbatch_def issues_invoke contract_ok_def)

lemmas issues_intros =
  issues_bind issues_seq issues_if issues_redirect issues_cmd_line issues_sbatch

section \<open>The statements of \<open>run\<close>\<close>

lemma main_dir_of_simp [simp]: "main_dir_of D s = (Inr (main_dir D (fsys s)), s)"
  by (simp add: main_dir_of_def main_dir_def io_bind_def lift_def)

lemma run_unfold:
  assumes "\<not> opt_version a"
  shows "run D a s =
     (let md = main_dir D (fsys s) in
      io_seq (name (globals D) ''os'')
     (io_seq (name (globals D) ''get_conda_prefix'')
     (io_bind (lift (get_conda_prefix (loader_of D) (pyaml_of a md))) (\<lambda>env.
      io_seq (unlock_stmt D a (workflow_of md) (env_yamls_of md) (pyaml_of a md) (ryaml_of a md) env)
        (mode_stmt D a md (workflow_of md) (env_yamls_of md) (pyaml_of a md) (ryaml_of a md) env))))
      s)"
  using assms by (simp add: run_def io_bind_ok [OF main_dir_of_simp] Let_def plan_defs)

lemma calls_unlock_stmt:
  assumes "unlock_stmt D a w ey py ry env s = (Inr (), s')"
  shows "calls s' =
     calls s @ (if opt_unlock a
       then [Api (cmd_line_args w (opt_work_dir a) (opt_samples a) ey py ry (opt_cores a) env False True)]
       else [])"
  using assms
  by (auto simp: unlock_stmt_def io_seq_cases io_bind_cases cmd_line_def
      dest!: calls_invoke calls_lift split: if_splits)

lemma calls_mode_stmt:
  assumes "mode_stmt D a md (workflow_of md) (env_yamls_of md) (pyaml_of a md) (ryaml_of a md) env s
     = (Inr (), s')"
  shows "calls s' = calls s @ [mode_call D a md env]"
proof (cases "opt_slurm a \<or> \<not> opt_dry_run a")
  case True
  with assms show ?thesis
    by (auto simp: mode_stmt_def mode_call_def api_of_def sbatch_def cmd_line_def
        dest!: calls_invoke split: if_splits)
next
  case False
  with assms obtain d s1 s2 f s3
    where "lift (Workflow_Dirs (opt_work_dir a) ''virus_phage_detect'') s = (Inr d, s1)"
      and "name (globals D) ''io'' s1 = (Inr (), s2)"
      and "redirect_stdout (cmd_line D (workflow_of md) (opt_work_dir a) (opt_samples a)
             (env_yamls_of md) (pyaml_of a md) (ryaml_of a md) (opt_cores a) env True False) s2
           = (Inr f, s3)"
      and "lift (print_cmds f) s3 = (Inr (), s')"
    by (auto simp: mode_stmt_def io_seq_cases io_bind_cases)
  with False show ?thesis
    by (auto simp: mode_call_def api_of_def cmd_line_def name_def
        dest!: calls_lift calls_redirect calls_invoke split: if_splits)
qed

lemma mode_stmt_dry_run:
  assumes "mode_stmt D a md w ey py ry env s = (Inr (), s')"
    and "\<not> opt_slurm a" and "opt_dry_run a"
  shows "\<exists>d f1 txt f2.
     Workflow_Dirs (opt_work_dir a) ''virus_phage_detect'' (fsys s) = (Inr d, f1) \<and>
     engine_of D (Api (cmd_line_args w (opt_work_dir a) (opt_samples a) ey py ry (opt_cores a)
        env True False)) f1 = (Inr (), txt, f2) \<and>
     print_cmds txt f2 = (Inr (), fsys s') \<and> out s' = out s"
proof -
  from assms obtain d s1 f s3
    where 1: "lift (Workflow_Dirs (opt_work_dir a) ''virus_phage_detect'') s = (Inr d, s1)"
      and 2: "redirect_stdout (cmd_line D w (opt_work_dir a) (opt_samples a) ey py ry
                (opt_cores a) env True False) s1 = (Inr f, s3)"
      and 3: "lift (print_cmds f) s3 = (Inr (), s')"
    by (auto simp: mode_stmt_def io_seq_cases io_bind_cases name_def split: if_splits)
  from 2 obtain t where t: "cmd_line D w (opt_work_dir a) (opt_samples a) ey py ry
      (opt_cores a) env True False (s1\<lparr>out := []\<rparr>) = (Inr (), t)"
    and s3: "s3 = t\<lparr>out := out s1\<rparr>" "f = out t"
    by (auto simp: redirect_stdout_def split: prod.splits sum.splits)
  from t obtain x f2 where e: "engine_of D (Api (cmd_line_args w (opt_work_dir a)
      (opt_samples a) ey py ry (opt_cores a) env True False)) (fsys s1) = (Inr (), x, f2)"
    and t': "fsys t = f2" "out t = x"
    by (auto simp: cmd_line_def invoke_cases)
  from 1 3 s3 t' e show ?thesis by (auto simp: lift_cases)
qed

section \<open>The examples\<close>

lemma run_ok1: "run deps1 args1 proc1 = (Inr (), snd (run deps1 args1 proc1))"
proof -
  have "fst (run deps1 args1 proc1) = Inr ()" by code_simp
  then show ?thesis by (simp add: prod_eq_iff)
qed

lemma conda_prefix1:
  "get_conda_prefix (loader_of deps2) (pyaml_of args1 (main_dir deps2 (fsys proc1))) (fsys proc1)
     = (Inr (PStr ''/envs''), fsys proc1)"
proof -
  have "fst (get_conda_prefix (loader_of deps2) (pyaml_of args1 (main_dir deps2 (fsys proc1)))
     (fsys proc1)) = Inr (PStr ''/envs'')" by code_simp
  then show ?thesis by (simp add: prod_eq_iff)
qed

section \<open>Properties of the dispatcher\<close>

text \<open>
  C2 (unbound names). In the module as it is, every \<^verbatim>\<open>run\<close> that is not asked for the
  version raises \<^verbatim>\<open>NameError\<close> for the name \<^verbatim>\<open>os\<close>, before it reads a file, provisions a
  directory or calls the engine: the process is left as it was.
\<close>

theorem run_name_error:
  assumes "\<not> opt_version a" and "globals D = module_globals"
  shows "run D a s = (Inl (NameError ''os''), s)"
proof -
  have "''os'' \<notin> set module_globals" by (simp add: module_globals_def)
  with assms show ?thesis
    by (simp add: run_def io_bind_ok [OF main_dir_of_simp] Let_def io_seq_err [OF name_unbound])
qed

theorem run_name_error_witness:
  "run deps0 (default_args ''/w'' ''/w/samples.csv'') proc0 = (Inl (NameError ''os''), proc0)"
  by (rule run_name_error) (simp_all add: default_args_def deps0_def)

text \<open>
  C4 (invocations of a run). A \<^verbatim>\<open>run\<close> that returns, not asked for the version, has
  read the conda prefix from the parameters file and has issued exactly the planned
  invocations in their order: the unlock invocation where \<^verbatim>\<open>--unlock\<close> is given, then one
  invocation of the mode chosen, through the argument vector for \<^verbatim>\<open>--slurm\<close> and through
  the keyword arguments otherwise, with the dry-run flag as given.
\<close>

theorem run_trace:
  assumes "run D a s = (Inr (), s')" and "\<not> opt_version a"
  shows "\<exists>env. get_conda_prefix (loader_of D) (pyaml_of a (main_dir D (fsys s))) (fsys s)
            = (Inr env, fsys s) \<and>
          calls s' = calls s @ planned D a (main_dir D (fsys s)) env"
proof -
  let ?md = "main_dir D (fsys s)"
  from assms obtain env s1 s2
    where env: "lift (get_conda_prefix (loader_of D) (pyaml_of a ?md)) s = (Inr env, s1)"
      and u: "unlock_stmt D a (workflow_of ?md) (env_yamls_of ?md) (pyaml_of a ?md)
                (ryaml_of a ?md) env s1 = (Inr (), s2)"
      and m: "mode_stmt D a ?md (workflow_of ?md) (env_yamls_of ?md) (pyaml_of a ?md)
                (ryaml_of a ?md) env s2 = (Inr (), s')"
    by (auto simp: run_unfold Let_def io_seq_cases io_bind_cases name_def split: if_splits)
  from env have "get_conda_prefix (loader_of D) (pyaml_of a ?md) (fsys s) = (Inr env, fsys s)"
    and "calls s1 = calls s"
    by (auto simp: lift_cases dest: get_conda_prefix_ro)
  with calls_unlock_stmt [OF u] calls_mode_stmt [OF m] show ?thesis
    by (auto simp: planned_def api_of_def)
qed

theorem run_trace_witness:
  "\<exists>env. get_conda_prefix (loader_of deps1) (pyaml_of args1 (main_dir deps1 (fsys proc1)))
            (fsys proc1) = (Inr env, fsys proc1) \<and>
     calls (snd (run deps1 args1 proc1)) =
       calls proc1 @ planned deps1 args1 (main_dir deps1 (fsys proc1)) env"
  by (rule run_trace [OF run_ok1]) (simp add: args1_def default_args_def)

text \<open>
  C8 (settings). Whatever the options and the outcome, every invocation of the engine
  that \<^verbatim>\<open>run\<close> issues carries two restarts, conda environments, printing of the shell
  commands, keep-going and a latency wait of 60; the keyword form carries the three
  configuration keys and two configuration files, the argument vector a profile.
\<close>

theorem run_contract: "issues contract_ok s (snd (run D a s))"
  unfolding run_def main_dir_of_def show_version_def unlock_stmt_def mode_stmt_def Let_def
  by (intro issues_intros issues_lift issues_pure)

text \<open>
  C24 (cluster mode wins). With \<^verbatim>\<open>--slurm\<close> the flag \<^verbatim>\<open>--dry_run\<close> has no effect: the run is
  the same with and without it. The two modes are not checked to exclude each other.
\<close>

theorem slurm_ignores_dry_run:
  assumes "opt_slurm a"
  shows "run D (a\<lparr>opt_dry_run := b\<rparr>) = run D a"
proof -
  from assms have "mode_stmt D (a\<lparr>opt_dry_run := b\<rparr>) = mode_stmt D a"
    by (simp add: mode_stmt_def fun_eq_iff)
  moreover have "unlock_stmt D (a\<lparr>opt_dry_run := b\<rparr>) = unlock_stmt D a"
    by (simp add: unlock_stmt_def fun_eq_iff)
  ultimately show ?thesis by (simp add: run_def Let_def cong: if_cong)
qed

theorem slurm_ignores_dry_run_witness:
  "run deps0 (default_args ''/w'' ''s.csv''\<lparr>opt_slurm := True, opt_dry_run := True\<rparr>) =
   run deps0 (default_args ''/w'' ''s.csv''\<lparr>opt_slurm := True\<rparr>)"
  using slurm_ignores_dry_run [of "default_args ''/w'' ''s.csv''\<lparr>opt_slurm := True\<rparr>" deps0 True]
  by (simp add: default_args_def)

text \<open>
  C14 (errors of the engine). In direct and in cluster mode an exception of the engine is
  the outcome of \<^verbatim>\<open>run\<close>: it is not caught, the invocation is on record, and what the
  engine printed and did to the file system stays.
\<close>

theorem engine_error_propagates:
  assumes "\<not> opt_version a" "\<not> opt_unlock a" "opt_slurm a \<or> \<not> opt_dry_run a"
    and "''os'' \<in> set (globals D)" "''get_conda_prefix'' \<in> set (globals D)"
    and "get_conda_prefix (loader_of D) (pyaml_of a (main_dir D (fsys s))) (fsys s) = (Inr env, f)"
    and "engine_of D (mode_call D a (main_dir D (fsys s)) env) (fsys s) = (Inl e, txt, f')"
  shows "run D a s =
     (Inl e, s\<lparr>fsys := f', out := out s @ txt,
              calls := calls s @ [mode_call D a (main_dir D (fsys s)) env]\<rparr>)"
proof -
  let ?md = "main_dir D (fsys s)"
  from assms(6) have "lift (get_conda_prefix (loader_of D) (pyaml_of a ?md)) s = (Inr env, s)"
    by (auto simp: lift_def dest: get_conda_prefix_ro)
  with assms(1-5,7) show ?thesis
    by (auto simp: run_unfold Let_def io_bind_ok unlock_stmt_def mode_stmt_def mode_call_def
        api_of_def sbatch_def cmd_line_def invoke_def)
qed

theorem engine_error_propagates_witness:
  "run deps2 args1 proc1 =
     (Inl (SystemExit 1), proc1\<lparr>fsys := fsys proc1, out := out proc1 @ ''error'',
        calls := calls proc1 @
          [mode_call deps2 args1 (main_dir deps2 (fsys proc1)) (PStr ''/envs'')]\<rparr>)"
  by (rule engine_error_propagates [OF _ _ _ _ _ conda_prefix1])
    (simp_all add: args1_def default_args_def deps2_def deps1_def deps0_def)

text \<open>
  C28 (version). Asked for the version with a package file of at least five lines whose
  fifth holds \<^verbatim>\<open> = \<close>, the branch prints the first line without the text around the
  module's name, \<^verbatim>\<open>: version \<close>, and what follows \<^verbatim>\<open> = \<close> on the fifth line. The line
  ends of the two lines are not removed: they are part of what is printed.
\<close>

theorem show_version_output:
  assumes "read_file (join md [''workflow'', ''__init__.py'']) (fsys s) = (Inr txt, f)"
    and "4 < length (readlines txt)"
    and "1 < length (split '' = '' (readlines txt ! 4))"
  shows "show_version md s =
     (Inr (), s\<lparr>out := out s @ version_name (readlines txt ! 0) @ '': version '' @
        split '' = '' (readlines txt ! 4) ! 1 @ [newline]\<rparr>)"
proof -
  from assms(1) have "lift (read_file (join md [''workflow'', ''__init__.py''])) s = (Inr txt, s)"
    by (auto simp: lift_def dest: read_file_ro)
  moreover from assms(2) have "readlines txt \<noteq> []" by auto
  ultimately show ?thesis using assms(2,3)
    by (simp add: show_version_def io_bind_ok Let_def index_def print_def version_name_def)
qed

theorem show_version_output_witness:
  "show_version ''/m'' proc1 =
     (Inr (), proc1\<lparr>out := ''CAMP virus-phage-detect'' @ [newline] @ '': version 0.1.0'' @
        [newline, newline]\<rparr>)"
proof -
  have "fst (read_file (join ''/m'' [''workflow'', ''__init__.py'']) (fsys proc1)) = Inr init_py"
    by code_simp
  then have r: "read_file (join ''/m'' [''workflow'', ''__init__.py'']) (fsys proc1) =
      (Inr init_py, snd (read_file (join ''/m'' [''workflow'', ''__init__.py'']) (fsys proc1)))"
    by (simp add: prod_eq_iff)
  have l: "4 < length (readlines init_py)" "1 < length (split '' = '' (readlines init_py ! 4))"
    by code_simp+
  have "version_name (readlines init_py ! 0) = ''CAMP virus-phage-detect'' @ [newline]"
    "split '' = '' (readlines init_py ! 4) ! 1 = ''0.1.0'' @ [newline]"
    by code_simp+
  with show_version_output [OF r l] show ?thesis by (simp add: proc1_def)
qed

end
