(* ===== verification/Ingestor.thy ===== *)
theory Ingestor
  imports Process
begin

text \<open>
  The staging of inputs: \<^verbatim>\<open>ingest_samples\<close> and \<^verbatim>\<open>extract_from_gzip\<close>
  (\<^verbatim>\<open>src/workflow/utils.py\<close>). The CSV reader and the decompressor are parameters. The
  cells of the manifest are values of any type the reader returns: a sample name or a
  path that is not a string makes the concatenation or \<^verbatim>\<open>abspath\<close> raise \<^verbatim>\<open>TypeError\<close>,
  a row with fewer than two paths makes the index raise \<^verbatim>\<open>IndexError\<close>.
\<close>

section \<open>The sample ingestor\<close>

text \<open>\<^verbatim>\<open>x + '...'\<close> for a cell \<open>x\<close> and a string.\<close>

definition add_str :: "pyval \<Rightarrow> string \<Rightarrow> ('s, string) prog" where
  "add_str x y = (case x of PStr v \<Rightarrow> io_return (v @ y) | _ \<Rightarrow> io_raise TypeError)"

text \<open>\<^verbatim>\<open>abspath(x)\<close> for a cell \<open>x\<close>.\<close>

definition abspath_of :: "pyval \<Rightarrow> string io" where
  "abspath_of x =
     (case x of
        PStr v \<Rightarrow> io_bind getcwd (\<lambda>c. io_return (abspath c v))
      | _ \<Rightarrow> io_raise TypeError)"

definition path_exists :: "string \<Rightarrow> bool io" where
  "path_exists p f = (Inr (exists f p), f)"

text \<open>The two names of a sample in the staging directory.\<close>

definition fwd_name :: "string \<Rightarrow> pyval \<Rightarrow> ('s, string) prog" where
  "fwd_name tmp x = io_bind (add_str x ''_1.fastq.gz'') (\<lambda>n. io_return (join tmp [n]))"

definition rev_name :: "string \<Rightarrow> pyval \<Rightarrow> ('s, string) prog" where
  "rev_name tmp x = io_bind (add_str x ''_2.fastq.gz'') (\<lambda>n. io_return (join tmp [n]))"

text \<open>One iteration of the loop: the row \<open>l\<close> with its position \<open>i\<close>.\<close>

definition stage_row :: "string \<Rightarrow> pyval list \<Rightarrow> nat \<times> pyval list \<Rightarrow> unit io" where
  "stage_row tmp s il =
     (case il of (i, l) \<Rightarrow>
        io_bind (index s i) (\<lambda>si.
        io_bind (fwd_name tmp si) (\<lambda>fwd.
        io_bind (path_exists fwd) (\<lambda>there.
        if \<not> there
        then io_bind (index l 0) (\<lambda>l0.
             io_bind (abspath_of l0) (\<lambda>a0.
             io_seq (symlink a0 fwd)
            (io_bind (index l 1) (\<lambda>l1.
             io_bind (abspath_of l1) (\<lambda>a1.
             io_bind (rev_name tmp si) (\<lambda>rv.
             symlink a1 rv))))))
        else io_return ()))))"

definition ingest_samples :: "reader \<Rightarrow> string \<Rightarrow> string \<Rightarrow> pyval list io" where
  "ingest_samples R samples tmp =
     io_bind (read_csv R samples) (\<lambda>df.
     let s = df_index df;
         lst = df_values df
     in io_seq (for_each (stage_row tmp s) (enumerate 0 lst)) (io_return s))"

section \<open>The archive normalizer\<close>

text \<open>
  A decompressor maps the bytes of a file to the bytes it produces and the exception that
  ends it, if any.
\<close>

type_synonym inflater = "string \<Rightarrow> string \<times> error option"

definition gzip_magic :: string where
  "gzip_magic = [CHR 0x1F, CHR 0x8B]"

text \<open>
  \<^verbatim>\<open>shutil.copyfileobj(f_in, f_out)\<close> between the two opened files: the input is read after
  the output was opened, and what was produced before an exception stays written.
\<close>

definition copy_inflated :: "inflater \<Rightarrow> string \<Rightarrow> string \<Rightarrow> unit io" where
  "copy_inflated Z ap outp =
     io_bind (read_file ap) (\<lambda>z.
     case Z z of (y, e) \<Rightarrow>
       io_seq (write_file outp y) (case e of None \<Rightarrow> io_return () | Some x \<Rightarrow> io_raise x))"

definition extract_from_gzip :: "inflater \<Rightarrow> string \<Rightarrow> string \<Rightarrow> unit io" where
  "extract_from_gzip Z ap outp =
     io_bind (read_file ap) (\<lambda>b.
     if take 2 b = gzip_magic
     then io_seq (write_file outp []) (copy_inflated Z ap outp)
     else symlink ap outp)"

section \<open>Examples\<close>

text \<open>
  A staging directory \<^verbatim>\<open>/w/tmp\<close> with a manifest beside it, the same with the forward link
  of sample \<^verbatim>\<open>a\<close> in place, a reader that returns one row whose read files do not exist,
  and a directory with an archive and a file where its content is to go.
\<close>

definition fs_tmp :: fs where
  "fs_tmp =
     \<lparr>nodes = [[] \<mapsto> Dir, [''w''] \<mapsto> Dir, [''w'', ''tmp''] \<mapsto> Dir,
        [''w'', ''s.csv''] \<mapsto> File ''name,fwd,rev''],
      cwd = []\<rparr>"

definition fs_staged :: fs where
  "fs_staged = fs_tmp\<lparr>nodes := (nodes fs_tmp)([''w'', ''tmp'', ''a_1.fastq.gz''] \<mapsto> File [])\<rparr>"

definition reader1 :: reader where
  "reader1 t = Inr \<lparr>df_index = [PStr ''a''], df_values = [[PStr ''/d/a_R1.fq'', PStr ''/d/a_R2.fq'']]\<rparr>"

definition fs_archive :: fs where
  "fs_archive =
     \<lparr>nodes = [[] \<mapsto> Dir, [''d''] \<mapsto> Dir, [''d'', ''x.gz''] \<mapsto> File (gzip_magic @ ''zz''),
        [''d'', ''y.fq''] \<mapsto> File ''ACGT'', [''d'', ''out''] \<mapsto> File ''old''],
      cwd = []\<rparr>"

section \<open>The primitives of a row\<close>

lemma add_str_cases:
  "add_str x y s = (r, s') \<longleftrightarrow>
     s' = s \<and> ((\<exists>v. x = PStr v \<and> r = Inr (v @ y)) \<or> (\<forall>v. x \<noteq> PStr v) \<and> r = Inl TypeError)"
  by (cases x) (auto simp: add_str_def)

lemma fwd_name_cases:
  "fwd_name tmp x s = (r, s') \<longleftrightarrow>
     s' = s \<and> ((\<exists>v. x = PStr v \<and> r = Inr (join tmp [v @ ''_1.fastq.gz''])) \<or>
               (\<forall>v. x \<noteq> PStr v) \<and> r = Inl TypeError)"
  by (cases x) (auto simp: fwd_name_def add_str_def io_bind_def)

lemma rev_name_cases:
  "rev_name tmp x s = (r, s') \<longleftrightarrow>
     s' = s \<and> ((\<exists>v. x = PStr v \<and> r = Inr (join tmp [v @ ''_2.fastq.gz''])) \<or>
               (\<forall>v. x \<noteq> PStr v) \<and> r = Inl TypeError)"
  by (cases x) (auto simp: rev_name_def add_str_def io_bind_def)

lemma abspath_of_cases:
  "abspath_of x f = (r, f') \<longleftrightarrow>
     f' = f \<and> ((\<exists>v. x = PStr v \<and> r = Inr (abspath (CHR ''/'' # str_join ''/'' (cwd f)) v)) \<or>
               (\<forall>v. x \<noteq> PStr v) \<and> r = Inl TypeError)"
  by (cases x) (auto simp: abspath_of_def io_bind_def)

lemma path_exists_simp [simp]: "path_exists p f = (Inr (exists f p), f)"
  by (simp add: path_exists_def)

lemma add_str_PStr [simp]: "add_str (PStr v) y = io_return (v @ y)"
  by (simp add: add_str_def)

lemma abspath_of_PStr [simp]:
  "abspath_of (PStr v) f = (Inr (abspath (CHR ''/'' # str_join ''/'' (cwd f)) v), f)"
  by (simp add: abspath_of_def io_bind_def)

lemma names_PStr [simp]:
  "fwd_name tmp (PStr v) = io_return (join tmp [v @ ''_1.fastq.gz''])"
  "rev_name tmp (PStr v) = io_return (join tmp [v @ ''_2.fastq.gz''])"
  by (simp_all add: fwd_name_def rev_name_def fun_eq_iff io_bind_def)

lemma snd_ro [simp]:
  "snd (index xs i s) = s" "snd (add_str x y s) = s" "snd (abspath_of x f) = f"
  "snd (fwd_name tmp x s) = s" "snd (rev_name tmp x s) = s" "snd (read_csv R p f) = f"
  by (auto simp: index_def add_str_def abspath_of_def fwd_name_def rev_name_def read_csv_def
      io_bind_def split: pyval.splits prod.splits sum.splits dest: read_file_ro)

lemma preserves_reads [simp]:
  "preserves I (index xs i)" "preserves I (add_str x y)" "preserves I (abspath_of z)"
  "preserves I (fwd_name tmp x)" "preserves I (rev_name tmp x)" "preserves I (read_csv R p)"
  "preserves I (path_exists p)"
  by (simp_all add: preserves_ro)

section \<open>One row\<close>

text \<open>What a successful pass over a row that was not staged has done.\<close>

lemma stage_row_new:
  assumes "stage_row tmp s (i, l) f = (Inr (), f')"
    and "\<not> exists f (join tmp [v @ ''_1.fastq.gz''])" and "i < length s" "s ! i = PStr v"
  shows "\<exists>v0 v1 p q. 1 < length l \<and> l ! 0 = PStr v0 \<and> l ! 1 = PStr v1 \<and>
     resolve f False (join tmp [v @ ''_1.fastq.gz'']) = Inr p \<and> nodes f p = None \<and>
     resolve (f\<lparr>nodes := (nodes f)(p \<mapsto> Symlink (abspath (CHR ''/'' # str_join ''/'' (cwd f)) v0))\<rparr>)
        False (join tmp [v @ ''_2.fastq.gz'']) = Inr q \<and> q \<noteq> p \<and> nodes f q = None \<and>
     f' = f\<lparr>nodes := (nodes f)
        (p \<mapsto> Symlink (abspath (CHR ''/'' # str_join ''/'' (cwd f)) v0),
         q \<mapsto> Symlink (abspath (CHR ''/'' # str_join ''/'' (cwd f)) v1))\<rparr>"
  using assms
  apply (simp add: stage_row_def io_bind_ok [OF index_cases [THEN iffD2]] fwd_name_def add_str_def)
  apply (auto simp: io_bind_cases io_seq_cases index_cases abspath_of_cases symlink_cases
      rev_name_cases split: if_splits)
  done

lemma preserves_stage_row: "preserves wf_fs (stage_row tmp s il)"
  unfolding stage_row_def
  by (cases il)
    (auto intro!: preserves_bind preserves_seq preserves_if preserves_symlink)

lemma preserves_ingest_samples: "preserves wf_fs (ingest_samples R samples tmp)"
  unfolding ingest_samples_def Let_def
  by (intro preserves_bind preserves_seq preserves_for_each preserves_stage_row preserves_pure
      preserves_reads)

lemma wf_fs_tmp: "wf_fs fs_tmp"
  by (auto simp: wf_fs_def tree_def fs_tmp_def split: if_splits)

lemma stage_row_tmp:
  "stage_row ''/w/tmp'' [PStr ''a''] (0, [PStr ''/d/a_R1.fq'', PStr ''/d/a_R2.fq'']) fs_tmp =
     (Inr (), snd (stage_row ''/w/tmp'' [PStr ''a''] (0, [PStr ''/d/a_R1.fq'', PStr ''/d/a_R2.fq''])
        fs_tmp))"
proof -
  have "fst (stage_row ''/w/tmp'' [PStr ''a''] (0, [PStr ''/d/a_R1.fq'', PStr ''/d/a_R2.fq''])
      fs_tmp) = Inr ()" by code_simp
  then show ?thesis by (simp add: prod_eq_iff)
qed

section \<open>Properties of the ingestor\<close>

text \<open>
  C10 (second staging of a dangling link). Where a row was staged and its forward link does
  not lead to a file (the read file named in the manifest is missing, so \<^verbatim>\<open>exists\<close> is
  false for the link), staging the same row again raises \<^verbatim>\<open>FileExistsError\<close> for the
  forward link: the test that guards the two \<^verbatim>\<open>symlink\<close> calls follows links, the calls
  themselves do not.
\<close>

theorem stage_row_rerun_dangling:
  assumes "stage_row tmp s (i, l) f = (Inr (), f')"
    and "i < length s" and "s ! i = PStr v"
    and "\<not> exists f (join tmp [v @ ''_1.fastq.gz''])"
    and "\<not> exists f' (join tmp [v @ ''_1.fastq.gz''])"
  shows "stage_row tmp s (i, l) f' = (Inl (FileExistsError (join tmp [v @ ''_1.fastq.gz''])), f')"
proof -
  let ?fwd = "join tmp [v @ ''_1.fastq.gz'']"
  from stage_row_new [OF assms(1,4,2,3)] obtain v0 v1 p q t0 t1
    where l: "1 < length l" "l ! 0 = PStr v0"
      and p: "resolve f False ?fwd = Inr p" "nodes f p = None" "q \<noteq> p" "nodes f q = None"
      and f': "f' = f\<lparr>nodes := (nodes f)(p \<mapsto> Symlink t0, q \<mapsto> Symlink t1)\<rparr>"
    by blast
  from p f' have "grows f f'" by (auto simp: grows_def map_le_def)
  with p have "resolve f' False ?fwd = Inr p" by (auto intro: resolve_new)
  moreover from p f' have "nodes f' p = Some (Symlink t0)" by simp
  ultimately have sl: "symlink t ?fwd f' = (Inl (FileExistsError ?fwd), f')" for t
    by (simp add: symlink_cases)
  note sl
  moreover from l have "0 < length l" by auto
  ultimately show ?thesis using assms(2,3,5) l
    by (simp add: stage_row_def io_bind_ok [OF path_exists_simp] io_bind_ok [OF abspath_of_PStr]
        io_seq_err)
qed

theorem stage_row_rerun_dangling_witness:
  "stage_row ''/w/tmp'' [PStr ''a''] (0, [PStr ''/d/a_R1.fq'', PStr ''/d/a_R2.fq''])
     (snd (stage_row ''/w/tmp'' [PStr ''a''] (0, [PStr ''/d/a_R1.fq'', PStr ''/d/a_R2.fq'']) fs_tmp)) =
   (Inl (FileExistsError (join ''/w/tmp'' [''a'' @ ''_1.fastq.gz''])),
    snd (stage_row ''/w/tmp'' [PStr ''a''] (0, [PStr ''/d/a_R1.fq'', PStr ''/d/a_R2.fq'']) fs_tmp))"
proof -
  let ?f' = "snd (stage_row ''/w/tmp'' [PStr ''a''] (0, [PStr ''/d/a_R1.fq'', PStr ''/d/a_R2.fq''])
    fs_tmp)"
  have "\<not> exists fs_tmp (join ''/w/tmp'' [''a'' @ ''_1.fastq.gz''])"
    and "\<not> exists ?f' (join ''/w/tmp'' [''a'' @ ''_1.fastq.gz''])"
    by code_simp+
  with stage_row_rerun_dangling [OF stage_row_tmp, of "''a''"] show ?thesis by simp
qed

text \<open>
  C23 (a staged sample is skipped). Where the forward name of a sample exists in the staging
  directory, the row is passed over and nothing changes, whatever the row holds and
  whether or not the reverse link is there: existence is tested for the forward name only.
\<close>

theorem stage_row_skips:
  assumes "exists f (join tmp [v @ ''_1.fastq.gz''])" and "i < length s" and "s ! i = PStr v"
  shows "stage_row tmp s (i, l) f = (Inr (), f)"
  using assms by (simp add: stage_row_def io_bind_ok [OF path_exists_simp])

theorem stage_row_skips_witness:
  "stage_row ''/w/tmp'' [PStr ''a''] (0, []) fs_staged = (Inr (), fs_staged)"
proof -
  have "exists fs_staged (join ''/w/tmp'' [''a'' @ ''_1.fastq.gz''])" by code_simp
  then show ?thesis by (rule stage_row_skips) simp_all
qed

text \<open>
  C21 (sample names). A call of \<^verbatim>\<open>ingest_samples\<close> that returns has read the manifest and
  returns the index of the frame the reader made of it, in the order of the manifest.
\<close>

theorem ingest_samples_returns:
  assumes "ingest_samples R samples tmp f = (Inr r, f')"
  shows "\<exists>t df. read_file samples f = (Inr t, f) \<and> R t = Inr df \<and> r = df_index df"
  using assms
  by (auto simp: ingest_samples_def Let_def io_bind_cases io_seq_cases read_csv_def
      dest: read_file_ro)

theorem ingest_samples_returns_witness:
  "\<exists>t df. read_file ''/w/s.csv'' fs_tmp = (Inr t, fs_tmp) \<and> reader1 t = Inr df \<and>
     [PStr ''a''] = df_index df"
proof -
  have "fst (ingest_samples reader1 ''/w/s.csv'' ''/w/tmp'' fs_tmp) = Inr [PStr ''a'']"
    by code_simp
  then have "ingest_samples reader1 ''/w/s.csv'' ''/w/tmp'' fs_tmp =
      (Inr [PStr ''a''], snd (ingest_samples reader1 ''/w/s.csv'' ''/w/tmp'' fs_tmp))"
    by (simp add: prod_eq_iff)
  then show ?thesis by (rule ingest_samples_returns)
qed



section \<open>Properties of the normalizer\<close>

text \<open>
  C15 (an archive overwrites). For a gzip archive, a destination that is a regular file
  (another one than the archive) is not a collision: the call succeeds and the file holds
  what the decompressor produced; its old content is gone.
\<close>

theorem extract_gzip_overwrites:
  assumes "stat f ap = Inr (File b)" and "take 2 b = gzip_magic" and "Z b = (y, None)"
    and "resolve f True ap = Inr pa" and "resolve f True outp = Inr po" and "pa \<noteq> po"
    and "nodes f po = Some (File old)"
  shows "extract_from_gzip Z ap outp f = (Inr (), f\<lparr>nodes := (nodes f)(po \<mapsto> File y)\<rparr>)"
proof -
  let ?g = "f\<lparr>nodes := (nodes f)(po \<mapsto> File [])\<rparr>"
  from assms(5,7) have w: "write_file outp [] f = (Inr (), ?g)" by (rule write_file_File)
  from assms(1,4,6,7) have "stat ?g ap = Inr (File b)" by (simp add: stat_file_content)
  then have r: "read_file ap ?g = (Inr b, ?g)" by (rule read_file_File)
  from assms(5,7) have "resolve ?g True outp = Inr po" by (simp add: resolve_file_content)
  then have "write_file outp y ?g = (Inr (), ?g\<lparr>nodes := (nodes ?g)(po \<mapsto> File y)\<rparr>)"
    by (rule write_file_File) simp
  with assms(3) r have "copy_inflated Z ap outp ?g = (Inr (), f\<lparr>nodes := (nodes f)(po \<mapsto> File y)\<rparr>)"
    by (simp add: copy_inflated_def io_bind_ok io_seq_ok)
  with assms(1,2) w show ?thesis
    by (simp add: extract_from_gzip_def io_bind_ok [OF read_file_File] io_seq_ok)
qed

theorem extract_gzip_overwrites_witness:
  "extract_from_gzip (\<lambda>b. (''ACGT'', None)) ''/d/x.gz'' ''/d/out'' fs_archive =
     (Inr (), fs_archive\<lparr>nodes := (nodes fs_archive)([''d'', ''out''] \<mapsto> File ''ACGT'')\<rparr>)"
proof -
  have s: "stat fs_archive ''/d/x.gz'' = Inr (File (gzip_magic @ ''zz''))"
    and a: "resolve fs_archive True ''/d/x.gz'' = Inr [''d'', ''x.gz'']"
    and b: "resolve fs_archive True ''/d/out'' = Inr [''d'', ''out'']"
    by code_simp+
  show ?thesis
    by (rule extract_gzip_overwrites [OF s _ _ a b, where old = "''old''"])
      (simp_all add: gzip_magic_def fs_archive_def)
qed

text \<open>
  C25 (a plain file collides). For a source that is not a gzip archive, a destination that
  exists (as any kind of node, a dangling link included) makes the call raise
  \<^verbatim>\<open>FileExistsError\<close>; nothing is changed.
\<close>

theorem extract_plain_collision:
  assumes "stat f ap = Inr (File b)" and "take 2 b \<noteq> gzip_magic"
    and "resolve f False outp = Inr p" and "nodes f p = Some n"
  shows "extract_from_gzip Z ap outp f = (Inl (FileExistsError outp), f)"
  using assms
  by (simp add: extract_from_gzip_def io_bind_ok [OF read_file_File] symlink_def create_def)

theorem extract_plain_collision_witness:
  "extract_from_gzip (\<lambda>b. ([], None)) ''/d/y.fq'' ''/d/out'' fs_archive =
     (Inl (FileExistsError ''/d/out''), fs_archive)"
proof -
  have s: "stat fs_archive ''/d/y.fq'' = Inr (File ''ACGT'')"
    and a: "resolve fs_archive False ''/d/out'' = Inr [''d'', ''out'']"
    by code_simp+
  show ?thesis
    by (rule extract_plain_collision [OF s _ a, where n = "File ''old''"])
      (simp_all add: gzip_magic_def fs_archive_def)
qed

end
