(* ===== verification/Spec2Isabelle.thy ===== *)
theory Spec2Isabelle
  imports Dispatcher Ingestor
begin

text \<open>
  \<^bold>\<open>A verification development for the CAMP virus-phage-detect launcher.\<close>

  The program (\<^verbatim>\<open>src/workflow/virus-phage-detect.py\<close> and \<^verbatim>\<open>src/workflow/utils.py\<close>) is the
  command line front of a workflow: it prepares a working directory, stages the samples
  of a manifest, and starts an external workflow engine directly, as a dry run, or
  through a cluster scheduler. After a dry run it turns the text the engine printed into
  a shell script (\<^verbatim>\<open>commands.sh\<close>).

  \<^bold>\<open>The parts of the program and the theories that model them.\<close>

  \<^item> \<^emph>\<open>Python strings and paths\<close>. \<open>PyStr\<close> holds the methods of \<^verbatim>\<open>str\<close> the sources call
    (\<open>strip\<close>, \<open>replace\<close>, \<open>split\<close>) and \<open>PyPath\<close> the functions of \<^verbatim>\<open>os.path\<close> that work on
    strings (\<open>join\<close>, \<open>path_split\<close>, \<open>dirname\<close>, \<open>normpath\<close>, \<open>abspath\<close>). A string is a
    list of \<^typ>\<open>char\<close>, one per code point below U+0100 (or one per byte); \<^verbatim>\<open>sub in s\<close> is
    \<open>sublist\<close> of the library.
  \<^item> \<^emph>\<open>The file system\<close>. \<open>FileSys\<close> holds the state (\<open>fs\<close>: a map from locations to
    directories, regular files and symbolic links, and the current directory), path
    resolution with links (\<open>walk\<close>, \<open>resolve\<close>), the type of programs that return or raise
    (\<open>prog\<close>, \<open>io_bind\<close>, \<open>io_seq\<close>, \<open>for_each\<close>), and the calls the sources make: \<open>exists\<close>,
    \<open>mkdir\<close>, \<open>makedirs\<close>, \<open>symlink\<close>, \<open>getcwd\<close>, \<open>read_file\<close>, \<open>write_file\<close>, \<open>rmtree\<close>. The
    exceptions are the datatype \<open>error\<close>; a raise is the result \<open>Inl e\<close> together with the
    state reached.
  \<^item> \<^emph>\<open>Directory provisioner\<close>, \<^verbatim>\<open>check_make\<close> and \<^verbatim>\<open>Workflow_Dirs.__init__\<close> in
    \<^verbatim>\<open>utils.py\<close>: theory \<open>Provisioner\<close> (\<open>check_make\<close>, \<open>Workflow_Dirs\<close>, the record
    \<open>workflow_dirs\<close> of the attributes \<^verbatim>\<open>OUT\<close>, \<^verbatim>\<open>TMP\<close>, \<^verbatim>\<open>LOG\<close>, the lists \<open>out_dirs\<close> and
    \<open>log_dirs\<close>), with the contract \<open>provision (targets work_dir)\<close>.
  \<^item> \<^emph>\<open>Sample ingestor and archive normalizer\<close>, \<^verbatim>\<open>ingest_samples\<close> and
    \<^verbatim>\<open>extract_from_gzip\<close> in \<^verbatim>\<open>utils.py\<close>: theory \<open>Ingestor\<close> (\<open>ingest_samples\<close> with its loop
    body \<open>stage_row\<close>; \<open>extract_from_gzip\<close> with \<open>copy_inflated\<close>).
  \<^item> \<^emph>\<open>Configuration lookup\<close>, \<^verbatim>\<open>get_conda_prefix\<close> in \<^verbatim>\<open>utils.py\<close>: theory \<open>Config\<close>.
  \<^item> \<^emph>\<open>Dry-run command extractor\<close>, \<^verbatim>\<open>print_cmds\<close> in \<^verbatim>\<open>utils.py\<close>. Theory \<open>Extractor\<close>
    holds the code: the record \<open>extractor\<close> of the variables \<^verbatim>\<open>l\<close>, \<^verbatim>\<open>write\<close> and the writes
    to \<^verbatim>\<open>f_out\<close>, one definition per \<^verbatim>\<open>if\<close> statement of the loop body (\<open>rule_stmt\<close>,
    \<open>wildcards_stmt\<close>, \<open>resources_stmt\<close>, \<open>bracket_stmt\<close>, \<open>write_stmt\<close>, \<open>break_stmt\<close>),
    their composition \<open>body\<close>, the loop with its \<^verbatim>\<open>break\<close> (\<open>loop\<close>), the list of non-empty
    lines (\<open>fi\<close>), the writes of a call (\<open>commands\<close>) and the call on the file system
    (\<open>print_cmds\<close>). Theory \<open>Extractor_Spec\<close> holds the contract: a two-state machine
    (\<open>Idle\<close>, \<open>Capturing\<close>) with a transition table keyed on what a line contains
    (\<open>next_mode\<close>, \<open>events\<close>, \<open>terminal\<close>, \<open>machine\<close>), and the shape of a step block of
    the engine's output (\<open>block\<close>, \<open>wf_block\<close>, \<open>block_events\<close>).
  \<^item> \<^emph>\<open>Run dispatcher and command line\<close>, \<^verbatim>\<open>virus-phage-detect.py\<close>. Theory \<open>Process\<close>
    holds the state of the process (\<open>proc\<close>: file system, standard output, the record of
    engine invocations), the invocations (\<open>api_call\<close> for the keyword arguments of
    \<^verbatim>\<open>snakemake\<close>, \<open>Argv\<close> for the argument list of \<^verbatim>\<open>main\<close>) and the primitives \<open>invoke\<close>,
    \<open>print\<close>, \<open>redirect_stdout\<close>, \<open>name\<close>, \<open>index\<close>. Theory \<open>Dispatcher\<close> holds \<open>sbatch\<close>,
    \<open>cmd_line\<close>, \<open>run\<close> (with its parts \<open>show_version\<close>, \<open>unlock_stmt\<close>, \<open>mode_stmt\<close>),
    \<open>cleanup\<close>, \<open>cleanup_files\<close>, \<open>test\<close> and the command group \<open>cli\<close>. What lies outside
    the repository is the record \<open>deps\<close> a command is run with: the names bound in the
    module, the engine, the YAML loader, the CSV reader, the iteration order of a set,
    and the path of the module's file.
  \<^item> \<open>VPD_Prelude\<close> holds the lemma collections (\<open>stmt_defs\<close>, \<open>py_eval\<close>, \<open>frame\<close>) and the
    list facts the theories share. This theory holds the property that spans the
    components.

  \<^bold>\<open>What the lemmas show.\<close>

  \<^item> \<open>PyStr\<close>, \<open>PyPath\<close>: \<open>strip\<close> is idempotent and leaves no whitespace at either end;
    \<open>replace\<close> introduces no character; \<open>split\<close> at a character distributes over
    concatenation; the split of a path joined from a directory and a name gives the name
    back, which makes \<open>makedirs\<close> terminate and create the leaf.
  \<^item> \<open>FileSys\<close>: what exists keeps existing and resolving to the same place when nodes are
    added (\<open>walk_grow\<close>, \<open>exists_grow\<close>); a successful \<open>mkdir\<close> or \<open>makedirs\<close> leaves a
    directory and only adds directories; every call keeps the tree well formed
    (\<open>wf_fs\<close>, \<open>preserves\<close>); a file written is the file read (\<open>write_read\<close>).
  \<^item> \<open>Provisioner\<close>: the constructor is the provisioning loop over sixteen paths; a
    second call changes nothing; after a successful call all paths exist; nodes are only
    added and nothing is undone on failure; a regular file in the place of a directory
    is accepted.
  \<^item> \<open>Ingestor\<close>: a staged sample is skipped; staging again a sample whose read file is
    missing raises; the sample names are returned in manifest order; an archive
    overwrites its destination while a plain file collides.
  \<^item> \<open>Config\<close>: the value found, the default when the key is missing, and the exception
    when the file holds no dictionary.
  \<^item> \<open>Extractor_Spec\<close>, \<open>Extractor\<close>: the loop implements the machine; nothing after the
    terminal line is written; the output of well-formed step blocks; no capture between
    a status line and the next metadata line; the script is a sequence of lines and is
    what the file holds afterwards.
  \<^item> \<open>Dispatcher\<close>: in the module as written every run that is not asked for the version
    raises \<^verbatim>\<open>NameError\<close>; in a module that binds the three missing names a run issues
    exactly the planned invocations, each with the required settings; cluster mode wins
    over a dry run; an exception of the engine is the outcome of the run; the text of the
    version message.
  \<^item> Here: a dry run provisions, then calls the engine once, then leaves the script.

  \<^bold>\<open>Bounds and fuel.\<close> Path resolution follows at most \<open>max_links = 40\<close> symbolic links
  and then fails with the error the kernel gives for a loop; the bound is part of the
  behaviour modelled, and with it \<open>walk\<close> is total. \<open>makedirs\<close> is a \<open>function\<close> whose
  termination is proved: the head of a path is shorter than the path. The loops of the
  sources are loops over lists (\<open>for_each\<close>, \<open>loop\<close>) and need no fuel. The examples use
  file systems of a few nodes, which is all the evaluation needs.

  \<^bold>\<open>Not modelled.\<close> The workflow engine, the cluster scheduler and the tools; the
  parsing of the command line by \<^verbatim>\<open>click\<close>; the parsers of pandas and PyYAML and the
  decompressor of \<^verbatim>\<open>gzip\<close>, which are parameters of which nothing is assumed;
  permissions, hard links, the trailing-separator rule of path resolution, text encodings
  and universal newlines; strings with code points above U+00FF.
\<close>

section \<open>A dry run, from the options to the script\<close>

lemma run_dry_ok:
  "run deps1 (args1\<lparr>opt_dry_run := True\<rparr>) proc1 =
     (Inr (), snd (run deps1 (args1\<lparr>opt_dry_run := True\<rparr>) proc1))"
proof -
  have "fst (run deps1 (args1\<lparr>opt_dry_run := True\<rparr>) proc1) = Inr ()" by code_simp
  then show ?thesis by (simp add: prod_eq_iff)
qed

lemma wf_fs_module: "wf_fs (fsys proc1)"
  by (auto simp: wf_fs_def tree_def proc1_def fs_module_def split: if_splits)

text \<open>
  C9 (dry run). A dry run without \<^verbatim>\<open>--unlock\<close> that returns, started in a well-formed file
  system with an engine that keeps it well formed, has provisioned the tree of the
  working directory first, then called the engine once in dry-run mode on the provisioned
  file system, and has left in \<^verbatim>\<open>commands.sh\<close> the rendered events of the extractor's
  machine over what the engine printed. Nothing of what the engine printed reaches
  standard output.
\<close>

theorem dry_run_script:
  assumes "run D a s = (Inr (), s')"
    and "\<not> opt_version a" "\<not> opt_unlock a" "\<not> opt_slurm a" "opt_dry_run a"
    and "wf_fs (fsys s)"
    and "\<And>i f. wf_fs f \<Longrightarrow> wf_fs (snd (snd (engine_of D i f)))"
  shows "\<exists>env f1 t f2.
     Workflow_Dirs (opt_work_dir a) ''virus_phage_detect'' (fsys s)
       = (Inr (dirs_of (opt_work_dir a)), f1) \<and>
     engine_of D (api_of a (main_dir D (fsys s)) env True False) f1 = (Inr (), t, f2) \<and>
     read_file ''commands.sh'' (fsys s')
       = (Inr (concat (map render (machine Idle (fi t)))), fsys s') \<and>
     out s' = out s"
proof -
  let ?md = "main_dir D (fsys s)"
  from assms(1-3) obtain env s1
    where env: "lift (get_conda_prefix (loader_of D) (pyaml_of a ?md)) s = (Inr env, s1)"
      and m: "mode_stmt D a ?md (workflow_of ?md) (env_yamls_of ?md) (pyaml_of a ?md)
                (ryaml_of a ?md) env s1 = (Inr (), s')"
    by (auto simp: run_unfold Let_def io_seq_cases io_bind_cases name_def unlock_stmt_def
        split: if_splits)
  from env have s1: "s1 = s" by (auto simp: lift_cases dest: get_conda_prefix_ro)
  from mode_stmt_dry_run [OF m assms(4,5)] obtain d f1 t f2
    where w: "Workflow_Dirs (opt_work_dir a) ''virus_phage_detect'' (fsys s) = (Inr d, f1)"
      and e: "engine_of D (api_of a ?md env True False) f1 = (Inr (), t, f2)"
      and p: "print_cmds t f2 = (Inr (), fsys s')" and o: "out s' = out s"
    by (auto simp: s1 api_of_def)
  from w have d: "d = dirs_of (opt_work_dir a)" by (auto simp: Workflow_Dirs_cases)
  from w assms(6) have "wf_fs f1"
    using preserves_Workflow_Dirs [of "opt_work_dir a" "''virus_phage_detect''"]
    by (auto simp: preserves_def)
  with e assms(7) [of f1 "api_of a ?md env True False"] have "wf_fs f2" by simp
  with p have "read_file ''commands.sh'' (fsys s')
      = (Inr (concat (map render (machine Idle (fi t)))), fsys s')"
    by (auto simp: print_cmds_def commands_def f_out_loop dest: write_read)
  with w e o d show ?thesis by blast
qed

theorem dry_run_script_witness:
  "\<exists>env f1 t f2.
     Workflow_Dirs (opt_work_dir (args1\<lparr>opt_dry_run := True\<rparr>)) ''virus_phage_detect'' (fsys proc1)
       = (Inr (dirs_of (opt_work_dir (args1\<lparr>opt_dry_run := True\<rparr>))), f1) \<and>
     engine_of deps1 (api_of (args1\<lparr>opt_dry_run := True\<rparr>) (main_dir deps1 (fsys proc1)) env
       True False) f1 = (Inr (), t, f2) \<and>
     read_file ''commands.sh'' (fsys (snd (run deps1 (args1\<lparr>opt_dry_run := True\<rparr>) proc1)))
       = (Inr (concat (map render (machine Idle (fi t)))),
          fsys (snd (run deps1 (args1\<lparr>opt_dry_run := True\<rparr>) proc1))) \<and>
     out (snd (run deps1 (args1\<lparr>opt_dry_run := True\<rparr>) proc1)) = out proc1"
  by (rule dry_run_script [OF run_dry_ok _ _ _ _ wf_fs_module])
    (simp_all add: args1_def default_args_def deps1_def deps0_def)

end
